theory Spec2Isabelle
  imports Complex_Main "HOL-Library.AList" "HOL-Library.Char_ord" "HOL-Library.List_Lexorder"
begin

section \<open>Data model (scripts/models.py)\<close>

text \<open>
  The embedding follows \<^verbatim>\<open>scripts/models.py\<close> and \<^verbatim>\<open>scripts/services.py\<close>, the
  classes the application imports; \<^verbatim>\<open>scripts/bank_system.py\<close> and
  \<^verbatim>\<open>scripts/auth_system.py\<close> hold an older copy of the same operations with the same
  statements in the same order.

  Conventions.
  \<^item> Python's private attributes (\<^verbatim>\<open>_id\<close>, \<^verbatim>\<open>_balance\<close>, ...) become record fields; a
    prefix per class (\<open>t_\<close>, \<open>a_\<close>, \<open>c_\<close>, \<open>u_\<close>) keeps the selectors of the four records
    apart.
  \<^item> Money is a Python \<^verbatim>\<open>float\<close>; it is modelled by \<open>real\<close>, that is, without rounding,
    infinities or NaN.
  \<^item> \<^verbatim>\<open>uuid.uuid4()\<close> and \<^verbatim>\<open>datetime.now().isoformat()\<close> read the environment: every
    function that calls them takes the values read as parameters (\<open>uuid\<close>, \<open>now\<close>).
  \<^item> A method that mutates \<^verbatim>\<open>self\<close> takes the object and returns its result paired
    with the object after the call; a \<^verbatim>\<open>raise\<close> is the result \<open>Inl e\<close>, and the object
    returned beside it is the object as the exception leaves it.
  \<^item> Writing the JSON file (\<^verbatim>\<open>JSONDataService.save_data\<close>) is outside the embedding;
    the document that is written is modelled in the section on persistence.
\<close>

datatype error =
    ValueError string
  | KeyError string
  | TypeError string
  | AttributeError string

record transaction =
  t_id :: string
  t_account_id :: string
  t_type :: string
  t_amount :: real
  t_balance_after :: real
  t_description :: string
  t_timestamp :: string
  t_reference_account :: "string option"

record account =
  a_id :: string
  a_customer_id :: string
  a_type :: string
  a_balance :: real
  a_status :: string
  a_created_date :: string
  a_transactions :: "transaction list"

text \<open>
  \<^verbatim>\<open>Customer._accounts\<close>, a list of references to the customer's Account objects, is
  derived data: \<^verbatim>\<open>to_dict\<close> does not write it, \<^verbatim>\<open>_load_data\<close> rebuilds it from the
  accounts' \<^verbatim>\<open>customer_id\<close>, and none of the operations below reads it. The record
  holds the stored fields.
\<close>

record customer =
  c_id :: string
  c_name :: string
  c_email :: string
  c_phone :: string
  c_address :: string
  c_created_date :: string

text \<open>\<^verbatim>\<open>x or datetime.now().isoformat()\<close>: \<^verbatim>\<open>None\<close> and the empty string are falsy.\<close>

definition or_now :: "string option \<Rightarrow> string \<Rightarrow> string" where
  "or_now x now = (case x of None \<Rightarrow> now | Some s \<Rightarrow> if s = [] then now else s)"

text \<open>\<^verbatim>\<open>Transaction.__init__\<close>\<close>

definition Transaction_init ::
  "string \<Rightarrow> string \<Rightarrow> string \<Rightarrow> string \<Rightarrow> real \<Rightarrow> real \<Rightarrow> string \<Rightarrow> string option \<Rightarrow>
   string option \<Rightarrow> transaction" where
  "Transaction_init now transaction_id account_id transaction_type amount balance_after
     description timestamp reference_account =
   \<lparr>t_id = transaction_id, t_account_id = account_id, t_type = transaction_type,
    t_amount = amount, t_balance_after = balance_after, t_description = description,
    t_timestamp = or_now timestamp now, t_reference_account = reference_account\<rparr>"

text \<open>\<^verbatim>\<open>Account.__init__\<close>; the defaults of \<^verbatim>\<open>status\<close> and \<^verbatim>\<open>created_date\<close> are passed by the callers.\<close>

definition Account_init ::
  "string \<Rightarrow> string \<Rightarrow> string \<Rightarrow> string \<Rightarrow> real \<Rightarrow> string \<Rightarrow> string option \<Rightarrow> account" where
  "Account_init now account_id customer_id account_type balance status created_date =
   \<lparr>a_id = account_id, a_customer_id = customer_id, a_type = account_type,
    a_balance = balance, a_status = status, a_created_date = or_now created_date now,
    a_transactions = []\<rparr>"

text \<open>\<^verbatim>\<open>Customer.__init__\<close> (through \<^verbatim>\<open>Person.__init__\<close>)\<close>

definition Customer_init ::
  "string \<Rightarrow> string \<Rightarrow> string \<Rightarrow> string \<Rightarrow> string \<Rightarrow> string \<Rightarrow> string option \<Rightarrow> customer" where
  "Customer_init now customer_id name email phone address created_date =
   \<lparr>c_id = customer_id, c_name = name, c_email = email, c_phone = phone,
    c_address = address, c_created_date = or_now created_date now\<rparr>"

subsection \<open>Account methods\<close>

text \<open>\<^verbatim>\<open>Account.deposit\<close> (models.py 353-368)\<close>

definition deposit ::
  "string \<Rightarrow> string \<Rightarrow> real \<Rightarrow> string \<Rightarrow> account \<Rightarrow> (error + transaction) \<times> account" where
  "deposit uuid now amount description self =
   (if amount \<le> 0 then (Inl (ValueError ''Deposit amount must be positive''), self)
    else
      let self1 = self\<lparr>a_balance := a_balance self + amount\<rparr>;
          transaction = Transaction_init now uuid (a_id self1) ''deposit'' amount
                          (a_balance self1) description None None
      in (Inr transaction, self1\<lparr>a_transactions := a_transactions self1 @ [transaction]\<rparr>))"

text \<open>\<^verbatim>\<open>Account.withdraw\<close> (models.py 370-387)\<close>

definition withdraw ::
  "string \<Rightarrow> string \<Rightarrow> real \<Rightarrow> string \<Rightarrow> account \<Rightarrow> (error + transaction) \<times> account" where
  "withdraw uuid now amount description self =
   (if amount \<le> 0 then (Inl (ValueError ''Withdrawal amount must be positive''), self)
    else if amount > a_balance self then (Inl (ValueError ''Insufficient funds''), self)
    else
      let self1 = self\<lparr>a_balance := a_balance self - amount\<rparr>;
          transaction = Transaction_init now uuid (a_id self1) ''withdraw'' amount
                          (a_balance self1) description None None
      in (Inr transaction, self1\<lparr>a_transactions := a_transactions self1 @ [transaction]\<rparr>))"

text \<open>\<^verbatim>\<open>Account.add_transaction\<close>\<close>

definition add_transaction :: "transaction \<Rightarrow> account \<Rightarrow> account" where
  "add_transaction transaction self =
   self\<lparr>a_transactions := a_transactions self @ [transaction]\<rparr>"

text \<open>
  \<^verbatim>\<open>sorted(xs, key=k, reverse=True)\<close>: Python's sort is stable, and with
  \<^verbatim>\<open>reverse=True\<close> elements with equal keys keep their original order (the list is
  reversed, sorted stably and reversed again). Strings compare lexicographically by
  character code.
\<close>

definition sorted_reverse :: "('a \<Rightarrow> string) \<Rightarrow> 'a list \<Rightarrow> 'a list" where
  "sorted_reverse k xs = rev (sort_key k (rev xs))"

text \<open>\<^verbatim>\<open>xs[:n]\<close>: a negative \<open>n\<close> counts from the end, and the stop is clamped at 0.\<close>

definition slice_to :: "int \<Rightarrow> 'a list \<Rightarrow> 'a list" where
  "slice_to n xs = (if 0 \<le> n then take (nat n) xs else take (length xs - nat (- n)) xs)"

text \<open>
  \<^verbatim>\<open>Account.get_transaction_history\<close> (models.py 393-396). \<^verbatim>\<open>limit\<close> is \<^verbatim>\<open>None\<close> or an
  integer; \<^verbatim>\<open>if limit\<close> is false for \<^verbatim>\<open>None\<close> and for 0.
\<close>

definition get_transaction_history :: "int option \<Rightarrow> account \<Rightarrow> transaction list" where
  "get_transaction_history limit self =
   (let sorted_transactions = sorted_reverse t_timestamp (a_transactions self)
    in case limit of
         None \<Rightarrow> sorted_transactions
       | Some n \<Rightarrow> if n \<noteq> 0 then slice_to n sorted_transactions else sorted_transactions)"

section \<open>The banking service (scripts/services.py)\<close>

text \<open>
  \<^verbatim>\<open>BankManagementService\<close> keeps two dictionaries, \<^verbatim>\<open>_customers\<close> and
  \<^verbatim>\<open>_accounts\<close>. A Python dictionary keeps its keys in insertion order, and
  \<^verbatim>\<open>_save_data\<close> writes the values in that order, so a dictionary is an association
  list: \<open>map_of\<close> looks a key up, \<open>AList.update\<close> is \<^verbatim>\<open>d[k] = v\<close> (in place when the
  key is there, at the end otherwise).

  The Account objects live in the dictionary, and a method call on
  \<^verbatim>\<open>self._accounts[k]\<close> mutates the object stored there. The dictionary is the store
  and the key is the address: \<open>modify_account k f\<close> applies the mutation \<open>f\<close> to the
  object under \<open>k\<close>. Two lookups of one key give one object, so the aliasing of
  \<^verbatim>\<open>from_account\<close> and \<^verbatim>\<open>to_account\<close> in a transfer from an account to itself is
  kept.
\<close>

record bank =
  customers :: "(string \<times> customer) list"
  accounts :: "(string \<times> account) list"

definition modify_account :: "string \<Rightarrow> (account \<Rightarrow> account) \<Rightarrow> bank \<Rightarrow> bank" where
  "modify_account k f self = self\<lparr>accounts := AList.map_entry k f (accounts self)\<rparr>"

text \<open>\<^verbatim>\<open>get_customer\<close>, \<^verbatim>\<open>get_account\<close>: \<^verbatim>\<open>dict.get\<close>\<close>

definition get_customer :: "bank \<Rightarrow> string \<Rightarrow> customer option" where
  "get_customer self customer_id = map_of (customers self) customer_id"

definition get_account :: "bank \<Rightarrow> string \<Rightarrow> account option" where
  "get_account self account_id = map_of (accounts self) account_id"

text \<open>\<^verbatim>\<open>f"{n:06d}"\<close>: decimal digits, padded with zeros on the left to at least six.\<close>

definition digit_char :: "nat \<Rightarrow> char" where
  "digit_char d = ''0123456789'' ! d"

function str_nat :: "nat \<Rightarrow> string" where
  "str_nat n = (if n < 10 then [digit_char n] else str_nat (n div 10) @ [digit_char (n mod 10)])"
  by pat_completeness auto
termination
  by (relation "measure id") auto

declare str_nat.simps [simp del]

definition format_06d :: "nat \<Rightarrow> string" where
  "format_06d n = (let d = str_nat n in replicate (6 - length d) CHR ''0'' @ d)"

text \<open>\<^verbatim>\<open>create_customer\<close> (services.py 215-222)\<close>

definition create_customer ::
  "string \<Rightarrow> string \<Rightarrow> string \<Rightarrow> string \<Rightarrow> string \<Rightarrow> string \<Rightarrow> bank \<Rightarrow> (error + customer) \<times> bank" where
  "create_customer uuid now name email phone address self =
   (let customer_id = uuid;
        customer = Customer_init now customer_id name email phone address None
    in (Inr customer, self\<lparr>customers := AList.update customer_id customer (customers self)\<rparr>))"

text \<open>
  \<^verbatim>\<open>create_account\<close> (services.py 224-238). \<open>now\<close> is the clock read by
  \<^verbatim>\<open>Account.__init__\<close>; \<open>uuid\<close> and \<open>now_t\<close> are read by the initial deposit.
\<close>

definition create_account ::
  "string \<Rightarrow> string \<Rightarrow> string \<Rightarrow> string \<Rightarrow> string \<Rightarrow> real \<Rightarrow> bank \<Rightarrow> (error + account) \<times> bank" where
  "create_account now uuid now_t customer_id account_type initial_deposit self =
   (if map_of (customers self) customer_id = None
    then (Inl (ValueError ''Customer not found''), self)
    else
      let account_id = ''ACC'' @ format_06d (length (accounts self) + 1);
          account = Account_init now account_id customer_id account_type initial_deposit
                      ''active'' None
      in if initial_deposit > 0
         then (case deposit uuid now_t initial_deposit ''Initial deposit'' account of
                 (Inl e, account1) \<Rightarrow> (Inl e, self)
               | (Inr t, account1) \<Rightarrow>
                   (Inr account1,
                    self\<lparr>accounts := AList.update account_id account1 (accounts self)\<rparr>))
         else (Inr account, self\<lparr>accounts := AList.update account_id account (accounts self)\<rparr>))"

text \<open>
  \<^verbatim>\<open>transfer_funds\<close> (services.py 253-296). Both transactions are built from the
  balances read before either balance is changed; then the source's balance, the
  destination's balance, the source's log and the destination's log are updated, in this
  order, each on the object found under its id.
\<close>

definition transfer_funds ::
  "string \<Rightarrow> string \<Rightarrow> string \<Rightarrow> string \<Rightarrow> string \<Rightarrow> string \<Rightarrow> real \<Rightarrow> string \<Rightarrow> bank \<Rightarrow>
   (error + transaction \<times> transaction) \<times> bank" where
  "transfer_funds uuid1 now1 uuid2 now2 from_account_id to_account_id amount description self =
   (case (get_account self from_account_id, get_account self to_account_id) of
      (Some from_account, Some to_account) \<Rightarrow>
        if a_balance from_account < amount
        then (Inl (ValueError ''Insufficient funds''), self)
        else
          let from_transaction =
                Transaction_init now1 uuid1 from_account_id ''transfer_out'' amount
                  (a_balance from_account - amount)
                  (''Transfer to '' @ to_account_id @ '': '' @ description)
                  None (Some to_account_id);
              to_transaction =
                Transaction_init now2 uuid2 to_account_id ''transfer_in'' amount
                  (a_balance to_account + amount)
                  (''Transfer from '' @ from_account_id @ '': '' @ description)
                  None (Some from_account_id);
              self1 = modify_account from_account_id
                        (\<lambda>a. a\<lparr>a_balance := a_balance a - amount\<rparr>) self;
              self2 = modify_account to_account_id
                        (\<lambda>a. a\<lparr>a_balance := a_balance a + amount\<rparr>) self1;
              self3 = modify_account from_account_id (add_transaction from_transaction) self2;
              self4 = modify_account to_account_id (add_transaction to_transaction) self3
          in (Inr (from_transaction, to_transaction), self4)
    | _ \<Rightarrow> (Inl (ValueError ''One or both accounts not found''), self))"

subsection \<open>Deposits and withdrawals as the application makes them (main.py)\<close>

text \<open>
  The service has no deposit or withdraw of its own. The transaction page (main.py
  1003-1006 and 1023-1026) looks the account up with \<^verbatim>\<open>get_account\<close> and calls the
  method on the object in the store; on \<^verbatim>\<open>None\<close> the attribute access raises.
\<close>

definition ui_deposit ::
  "string \<Rightarrow> string \<Rightarrow> string \<Rightarrow> real \<Rightarrow> string \<Rightarrow> bank \<Rightarrow> (error + transaction) \<times> bank" where
  "ui_deposit uuid now account_id amount description self =
   (case get_account self account_id of
      None \<Rightarrow> (Inl (AttributeError ''deposit''), self)
    | Some account \<Rightarrow>
        (case deposit uuid now amount description account of
           (r, account1) \<Rightarrow> (r, modify_account account_id (\<lambda>a. account1) self)))"

definition ui_withdraw ::
  "string \<Rightarrow> string \<Rightarrow> string \<Rightarrow> real \<Rightarrow> string \<Rightarrow> bank \<Rightarrow> (error + transaction) \<times> bank" where
  "ui_withdraw uuid now account_id amount description self =
   (case get_account self account_id of
      None \<Rightarrow> (Inl (AttributeError ''withdraw''), self)
    | Some account \<Rightarrow>
        (case withdraw uuid now amount description account of
           (r, account1) \<Rightarrow> (r, modify_account account_id (\<lambda>a. account1) self)))"

subsection \<open>Sequences of ledger operations\<close>

datatype ledger_op =
    Deposit string string string real string
  | Withdraw string string string real string
  | Transfer string string string string string string real string

fun apply_op :: "ledger_op \<Rightarrow> bank \<Rightarrow> bank" where
  "apply_op (Deposit uuid now account_id amount description) self =
     snd (ui_deposit uuid now account_id amount description self)"
| "apply_op (Withdraw uuid now account_id amount description) self =
     snd (ui_withdraw uuid now account_id amount description self)"
| "apply_op (Transfer uuid1 now1 uuid2 now2 from_id to_id amount description) self =
     snd (transfer_funds uuid1 now1 uuid2 now2 from_id to_id amount description self)"

fun succeeds :: "ledger_op \<Rightarrow> bank \<Rightarrow> bool" where
  "succeeds (Deposit uuid now account_id amount description) self =
     (\<not> isl (fst (ui_deposit uuid now account_id amount description self)))"
| "succeeds (Withdraw uuid now account_id amount description) self =
     (\<not> isl (fst (ui_withdraw uuid now account_id amount description self)))"
| "succeeds (Transfer uuid1 now1 uuid2 now2 from_id to_id amount description) self =
     (\<not> isl (fst (transfer_funds uuid1 now1 uuid2 now2 from_id to_id amount description self)))"

text \<open>
  \<open>run_ops ops s\<close> is the state after the operations \<open>ops\<close>, made one after the other
  from \<open>s\<close>, when every one of them succeeds, and \<open>None\<close> as soon as one raises.
\<close>

fun run_ops :: "ledger_op list \<Rightarrow> bank \<Rightarrow> bank option" where
  "run_ops [] self = Some self"
| "run_ops (x # xs) self = (if succeeds x self then run_ops xs (apply_op x self) else None)"

text \<open>A transfer from the account \<open>k\<close> to itself.\<close>

fun self_transfer_on :: "string \<Rightarrow> ledger_op \<Rightarrow> bool" where
  "self_transfer_on k (Transfer uuid1 now1 uuid2 now2 from_id to_id amount description) =
     (from_id = to_id \<and> from_id = k)"
| "self_transfer_on k _ = False"

text \<open>The balance of an account of the store, and the \<^verbatim>\<open>balance_after\<close> its log ends with.\<close>

definition balance_of :: "bank \<Rightarrow> string \<Rightarrow> real option" where
  "balance_of self k = map_option a_balance (map_of (accounts self) k)"

definition last_balance_after :: "bank \<Rightarrow> string \<Rightarrow> real option" where
  "last_balance_after self k =
   (case map_of (accounts self) k of
      None \<Rightarrow> None
    | Some a \<Rightarrow> (case a_transactions a of [] \<Rightarrow> None
                | t # ts \<Rightarrow> Some (t_balance_after (last (t # ts)))))"

text \<open>
  An account's balance agrees with its log: the log is empty, or the balance is the
  \<^verbatim>\<open>balance_after\<close> of the last transaction appended.
\<close>

definition balance_matches_log :: "account \<Rightarrow> bool" where
  "balance_matches_log a =
   (a_transactions a = [] \<or> a_balance a = t_balance_after (last (a_transactions a)))"

section \<open>The authentication service (scripts/services.py)\<close>

text \<open>
  \<^verbatim>\<open>User\<close> (models.py 131-230). \<^verbatim>\<open>Person._name\<close> holds the full name.
\<close>

record user =
  u_id :: string
  u_username :: string
  u_email :: string
  u_password_hash :: string
  u_role :: string
  u_name :: string
  u_phone :: string
  u_is_active :: bool
  u_created_date :: string
  u_last_login :: "string option"
  u_customer_id :: "string option"

text \<open>\<^verbatim>\<open>User.__init__\<close>\<close>

definition User_init ::
  "string \<Rightarrow> string \<Rightarrow> string \<Rightarrow> string \<Rightarrow> string \<Rightarrow> string \<Rightarrow> string \<Rightarrow> string \<Rightarrow> bool \<Rightarrow>
   string option \<Rightarrow> string option \<Rightarrow> string option \<Rightarrow> user" where
  "User_init now user_id username email password_hash role full_name phone is_active
     created_date last_login customer_id =
   \<lparr>u_id = user_id, u_username = username, u_email = email,
    u_password_hash = password_hash, u_role = role, u_name = full_name, u_phone = phone,
    u_is_active = is_active, u_created_date = or_now created_date now,
    u_last_login = last_login, u_customer_id = customer_id\<rparr>"

text \<open>
  \<^verbatim>\<open>User._hash_password\<close> is \<^verbatim>\<open>hashlib.sha256(password.encode()).hexdigest()\<close>, a
  library function: the functions that hash take it as the parameter \<open>hash_password\<close>.
\<close>

definition check_password :: "(string \<Rightarrow> string) \<Rightarrow> user \<Rightarrow> string \<Rightarrow> bool" where
  "check_password hash_password self password =
   (u_password_hash self = hash_password password)"

definition set_active_status :: "bool \<Rightarrow> user \<Rightarrow> user" where
  "set_active_status status self = self\<lparr>u_is_active := status\<rparr>"

definition update_last_login :: "string \<Rightarrow> user \<Rightarrow> user" where
  "update_last_login now self = self\<lparr>u_last_login := Some now\<rparr>"

text \<open>\<^verbatim>\<open>User.create_user\<close>\<close>

definition create_user ::
  "(string \<Rightarrow> string) \<Rightarrow> string \<Rightarrow> string \<Rightarrow> string \<Rightarrow> string \<Rightarrow> string \<Rightarrow> string \<Rightarrow> string \<Rightarrow>
   string \<Rightarrow> string option \<Rightarrow> user" where
  "create_user hash_password uuid now username email password role full_name phone customer_id =
   User_init now uuid username email (hash_password password) role full_name phone True
     None None customer_id"

text \<open>\<^verbatim>\<open>UserAuthService\<close>: the dictionary \<^verbatim>\<open>_users\<close>, keyed by user name.\<close>

record auth_service =
  users :: "(string \<times> user) list"

text \<open>\<^verbatim>\<open>_create_default_admin\<close> (services.py 96-109)\<close>

definition create_default_admin ::
  "(string \<Rightarrow> string) \<Rightarrow> string \<Rightarrow> string \<Rightarrow> auth_service \<Rightarrow> auth_service" where
  "create_default_admin hash_password uuid now self =
   (let admin_exists = list_ex (\<lambda>user. u_role user = ''admin'') (map snd (users self))
    in if \<not> admin_exists
       then
         let admin_user = create_user hash_password uuid now ''admin'' ''admin@bank.com''
                            ''admin123'' ''admin'' ''System Administrator'' ''1234567890'' None
         in self\<lparr>users := AList.update ''admin'' admin_user (users self)\<rparr>
       else self)"

text \<open>
  \<^verbatim>\<open>login\<close> (services.py 111-125). The result is the triple \<^verbatim>\<open>(success, message, user)\<close>;
  on success the user returned is the object in the store, after \<^verbatim>\<open>update_last_login\<close>.
\<close>

definition login ::
  "(string \<Rightarrow> string) \<Rightarrow> string \<Rightarrow> string \<Rightarrow> string \<Rightarrow> auth_service \<Rightarrow>
   (bool \<times> string \<times> user option) \<times> auth_service" where
  "login hash_password now username password self =
   (case map_of (users self) username of
      None \<Rightarrow> ((False, ''Invalid username or password'', None), self)
    | Some user \<Rightarrow>
        if \<not> u_is_active user then ((False, ''Account is deactivated'', None), self)
        else if \<not> check_password hash_password user password
        then ((False, ''Invalid username or password'', None), self)
        else
          let user1 = update_last_login now user
          in ((True, ''Login successful'', Some user1),
              self\<lparr>users := AList.map_entry username (\<lambda>u. user1) (users self)\<rparr>))"

text \<open>The loop of \<^verbatim>\<open>register_user\<close> over \<^verbatim>\<open>self._users.values()\<close>, with its early returns.\<close>

fun find_conflict :: "string \<Rightarrow> string \<Rightarrow> user list \<Rightarrow> string option" where
  "find_conflict username email [] = None"
| "find_conflict username email (user # rest) =
     (if u_username user = username then Some ''Username already exists''
      else if u_email user = email then Some ''Email already exists''
      else find_conflict username email rest)"

text \<open>
  \<^verbatim>\<open>register_user\<close> (services.py 127-148). Nothing in the \<^verbatim>\<open>try\<close> block raises, so the
  \<^verbatim>\<open>except\<close> branch has no counterpart.
\<close>

definition register_user ::
  "(string \<Rightarrow> string) \<Rightarrow> string \<Rightarrow> string \<Rightarrow> string \<Rightarrow> string \<Rightarrow> string \<Rightarrow> string \<Rightarrow> string \<Rightarrow>
   string \<Rightarrow> string option \<Rightarrow> auth_service \<Rightarrow> (bool \<times> string \<times> user option) \<times> auth_service" where
  "register_user hash_password uuid now username email password role full_name phone
     customer_id self =
   (if username = [] \<or> email = [] \<or> password = [] \<or> full_name = [] \<or> phone = []
    then ((False, ''All fields are required'', None), self)
    else if length password < 6
    then ((False, ''Password must be at least 6 characters long'', None), self)
    else
      (case find_conflict username email (map snd (users self)) of
         Some message \<Rightarrow> ((False, message, None), self)
       | None \<Rightarrow>
           let new_user = create_user hash_password uuid now username email password role
                            full_name phone customer_id
           in ((True, ''User registered successfully'', Some new_user),
               self\<lparr>users := AList.update username new_user (users self)\<rparr>)))"

text \<open>\<^verbatim>\<open>update_user_status\<close> (services.py 158-164)\<close>

definition update_user_status :: "string \<Rightarrow> bool \<Rightarrow> auth_service \<Rightarrow> bool \<times> auth_service" where
  "update_user_status username is_active self =
   (if map_of (users self) username \<noteq> None
    then (True,
          self\<lparr>users := AList.map_entry username (set_active_status is_active) (users self)\<rparr>)
    else (False, self))"

text \<open>\<^verbatim>\<open>delete_user\<close> (services.py 166-172)\<close>

definition delete_user :: "string \<Rightarrow> auth_service \<Rightarrow> bool \<times> auth_service" where
  "delete_user username self =
   (if map_of (users self) username \<noteq> None \<and> username \<noteq> ''admin''
    then (True, self\<lparr>users := AList.delete username (users self)\<rparr>)
    else (False, self))"

text \<open>\<^verbatim>\<open>get_user\<close>\<close>

definition get_user :: "auth_service \<Rightarrow> string \<Rightarrow> user option" where
  "get_user self username = map_of (users self) username"

section \<open>Persistence: \<^verbatim>\<open>to_dict\<close>, \<^verbatim>\<open>from_dict\<close>, \<^verbatim>\<open>_save_data\<close>, \<^verbatim>\<open>_load_data\<close>\<close>

text \<open>
  The values \<^verbatim>\<open>to_dict\<close> builds and \<^verbatim>\<open>json.load\<close> returns: \<^verbatim>\<open>None\<close>, booleans, numbers,
  strings, lists, and dictionaries with string keys (in insertion order). The text of
  the file, written by \<^verbatim>\<open>json.dump\<close> and read by \<^verbatim>\<open>json.load\<close>, is the library's
  business and stays outside.
\<close>

datatype pyval =
    PNone
  | PBool bool
  | PNum real
  | PStr string
  | PList "pyval list"
  | PDict "(string \<times> pyval) list"

text \<open>An exception ends the computation: \<open>bind_result\<close> passes \<open>Inl e\<close> on.\<close>

definition bind_result :: "error + 'a \<Rightarrow> ('a \<Rightarrow> error + 'b) \<Rightarrow> error + 'b" where
  "bind_result r f = (case r of Inl e \<Rightarrow> Inl e | Inr x \<Rightarrow> f x)"

text \<open>\<^verbatim>\<open>data[k]\<close> raises \<^verbatim>\<open>KeyError\<close> on a missing key; \<^verbatim>\<open>data.get(k, default)\<close> does not.\<close>

definition item :: "(string \<times> pyval) list \<Rightarrow> string \<Rightarrow> error + pyval" where
  "item data k = (case map_of data k of None \<Rightarrow> Inl (KeyError k) | Some v \<Rightarrow> Inr v)"

definition get_or :: "(string \<times> pyval) list \<Rightarrow> string \<Rightarrow> pyval \<Rightarrow> pyval" where
  "get_or data k dflt = (case map_of data k of None \<Rightarrow> dflt | Some v \<Rightarrow> v)"

text \<open>
  Python stores whatever value the document holds; the records are typed. A value of
  another type than the field's is reported as \<open>TypeError\<close>: such a document is outside
  the typed model. \<^verbatim>\<open>None\<close> is read only where the constructor accepts it.
\<close>

definition as_str :: "string \<Rightarrow> pyval \<Rightarrow> error + string" where
  "as_str k v = (case v of PStr x \<Rightarrow> Inr x | _ \<Rightarrow> Inl (TypeError k))"

definition as_opt_str :: "string \<Rightarrow> pyval \<Rightarrow> error + string option" where
  "as_opt_str k v =
   (case v of PNone \<Rightarrow> Inr None | PStr x \<Rightarrow> Inr (Some x) | _ \<Rightarrow> Inl (TypeError k))"

definition as_num :: "string \<Rightarrow> pyval \<Rightarrow> error + real" where
  "as_num k v = (case v of PNum x \<Rightarrow> Inr x | _ \<Rightarrow> Inl (TypeError k))"

definition as_list :: "string \<Rightarrow> pyval \<Rightarrow> error + pyval list" where
  "as_list k v = (case v of PList x \<Rightarrow> Inr x | _ \<Rightarrow> Inl (TypeError k))"

definition str_item :: "(string \<times> pyval) list \<Rightarrow> string \<Rightarrow> error + string" where
  "str_item data k = bind_result (item data k) (as_str k)"

definition num_item :: "(string \<times> pyval) list \<Rightarrow> string \<Rightarrow> error + real" where
  "num_item data k = bind_result (item data k) (as_num k)"

text \<open>A list comprehension whose body may raise.\<close>

fun map_result :: "('a \<Rightarrow> error + 'b) \<Rightarrow> 'a list \<Rightarrow> error + 'b list" where
  "map_result f [] = Inr []"
| "map_result f (x # xs) =
     bind_result (f x) (\<lambda>y. bind_result (map_result f xs) (\<lambda>ys. Inr (y # ys)))"

text \<open>\<^verbatim>\<open>Customer.to_dict\<close>, \<^verbatim>\<open>Customer.from_dict\<close> (models.py 110-129)\<close>

definition Customer_to_dict :: "customer \<Rightarrow> pyval" where
  "Customer_to_dict self =
   PDict [(''customer_id'', PStr (c_id self)),
          (''name'', PStr (c_name self)),
          (''email'', PStr (c_email self)),
          (''phone'', PStr (c_phone self)),
          (''address'', PStr (c_address self)),
          (''created_date'', PStr (c_created_date self))]"

definition Customer_from_dict :: "string \<Rightarrow> pyval \<Rightarrow> error + customer" where
  "Customer_from_dict now v =
   (case v of
      PDict data \<Rightarrow>
        bind_result (str_item data ''customer_id'') (\<lambda>customer_id.
        bind_result (str_item data ''name'') (\<lambda>name.
        bind_result (str_item data ''email'') (\<lambda>email.
        bind_result (str_item data ''phone'') (\<lambda>phone.
        bind_result (str_item data ''address'') (\<lambda>address.
        bind_result (as_opt_str ''created_date'' (get_or data ''created_date'' PNone))
          (\<lambda>created_date.
        Inr (Customer_init now customer_id name email phone address created_date)))))))
    | _ \<Rightarrow> Inl (TypeError ''data''))"

text \<open>\<^verbatim>\<open>Transaction.to_dict\<close>, \<^verbatim>\<open>Transaction.from_dict\<close> (models.py 279-302)\<close>

definition Transaction_to_dict :: "transaction \<Rightarrow> pyval" where
  "Transaction_to_dict self =
   PDict [(''transaction_id'', PStr (t_id self)),
          (''account_id'', PStr (t_account_id self)),
          (''transaction_type'', PStr (t_type self)),
          (''amount'', PNum (t_amount self)),
          (''balance_after'', PNum (t_balance_after self)),
          (''description'', PStr (t_description self)),
          (''timestamp'', PStr (t_timestamp self)),
          (''reference_account'',
             (case t_reference_account self of None \<Rightarrow> PNone | Some r \<Rightarrow> PStr r))]"

definition Transaction_from_dict :: "string \<Rightarrow> pyval \<Rightarrow> error + transaction" where
  "Transaction_from_dict now v =
   (case v of
      PDict data \<Rightarrow>
        bind_result (str_item data ''transaction_id'') (\<lambda>transaction_id.
        bind_result (str_item data ''account_id'') (\<lambda>account_id.
        bind_result (str_item data ''transaction_type'') (\<lambda>transaction_type.
        bind_result (num_item data ''amount'') (\<lambda>amount.
        bind_result (num_item data ''balance_after'') (\<lambda>balance_after.
        bind_result (str_item data ''description'') (\<lambda>description.
        bind_result (as_opt_str ''timestamp'' (get_or data ''timestamp'' PNone)) (\<lambda>timestamp.
        bind_result (as_opt_str ''reference_account'' (get_or data ''reference_account'' PNone))
          (\<lambda>reference_account.
        Inr (Transaction_init now transaction_id account_id transaction_type amount
               balance_after description timestamp reference_account)))))))))
    | _ \<Rightarrow> Inl (TypeError ''data''))"

text \<open>\<^verbatim>\<open>Account.to_dict\<close>, \<^verbatim>\<open>Account.from_dict\<close> (models.py 398-420)\<close>

definition Account_to_dict :: "account \<Rightarrow> pyval" where
  "Account_to_dict self =
   PDict [(''account_id'', PStr (a_id self)),
          (''customer_id'', PStr (a_customer_id self)),
          (''account_type'', PStr (a_type self)),
          (''balance'', PNum (a_balance self)),
          (''status'', PStr (a_status self)),
          (''created_date'', PStr (a_created_date self)),
          (''transactions'', PList (map Transaction_to_dict (a_transactions self)))]"

definition Account_from_dict :: "string \<Rightarrow> pyval \<Rightarrow> error + account" where
  "Account_from_dict now v =
   (case v of
      PDict data \<Rightarrow>
        bind_result (str_item data ''account_id'') (\<lambda>account_id.
        bind_result (str_item data ''customer_id'') (\<lambda>customer_id.
        bind_result (str_item data ''account_type'') (\<lambda>account_type.
        bind_result (num_item data ''balance'') (\<lambda>balance.
        bind_result (str_item data ''status'') (\<lambda>status.
        bind_result (bind_result (item data ''created_date'') (as_opt_str ''created_date''))
          (\<lambda>created_date.
        let account = Account_init now account_id customer_id account_type balance status
                        created_date
        in
        bind_result (as_list ''transactions'' (get_or data ''transactions'' (PList [])))
          (\<lambda>ts.
        bind_result (map_result (Transaction_from_dict now) ts) (\<lambda>transactions.
        Inr (account\<lparr>a_transactions := transactions\<rparr>)))))))))
    | _ \<Rightarrow> Inl (TypeError ''data''))"

text \<open>
  \<^verbatim>\<open>_save_data\<close> (services.py 207-213): the document handed to
  \<^verbatim>\<open>JSONDataService.save_data\<close>.
\<close>

definition save_data :: "bank \<Rightarrow> pyval" where
  "save_data self =
   PDict [(''customers'', PList (map Customer_to_dict (map snd (customers self)))),
          (''accounts'', PList (map Account_to_dict (map snd (accounts self))))]"

text \<open>
  \<^verbatim>\<open>_load_data\<close> (services.py 189-205): the two loops, each storing the object read
  under its own id. The link from an account to its customer's \<^verbatim>\<open>_accounts\<close> list has no
  counterpart, as that list has none.
\<close>

fun load_customers ::
  "string \<Rightarrow> pyval list \<Rightarrow> (string \<times> customer) list \<Rightarrow> error + (string \<times> customer) list" where
  "load_customers now [] cs = Inr cs"
| "load_customers now (customer_data # rest) cs =
     bind_result (Customer_from_dict now customer_data) (\<lambda>customer.
       load_customers now rest (AList.update (c_id customer) customer cs))"

fun load_accounts ::
  "string \<Rightarrow> pyval list \<Rightarrow> (string \<times> account) list \<Rightarrow> error + (string \<times> account) list" where
  "load_accounts now [] acs = Inr acs"
| "load_accounts now (account_data # rest) acs =
     bind_result (Account_from_dict now account_data) (\<lambda>account.
       load_accounts now rest (AList.update (a_id account) account acs))"

definition load_data :: "string \<Rightarrow> pyval \<Rightarrow> bank \<Rightarrow> error + bank" where
  "load_data now v self =
   (case v of
      PDict data \<Rightarrow>
        bind_result (as_list ''customers'' (get_or data ''customers'' (PList []))) (\<lambda>cd.
        bind_result (load_customers now cd (customers self)) (\<lambda>cs.
        bind_result (as_list ''accounts'' (get_or data ''accounts'' (PList []))) (\<lambda>ad.
        bind_result (load_accounts now ad (accounts self)) (\<lambda>acs.
        Inr (self\<lparr>customers := cs, accounts := acs\<rparr>)))))
    | _ \<Rightarrow> Inl (TypeError ''data''))"

text \<open>
  \<^verbatim>\<open>BankManagementService.__init__\<close>: two empty dictionaries, then \<^verbatim>\<open>_load_data\<close> on the
  document read from the file (\<^verbatim>\<open>{}\<close> when there is no file).
\<close>

definition empty_bank :: bank where
  "empty_bank = \<lparr>customers = [], accounts = []\<rparr>"

definition BankManagementService_init :: "string \<Rightarrow> pyval \<Rightarrow> error + bank" where
  "BankManagementService_init now data = load_data now data empty_bank"

text \<open>
  What the constructors and the service establish for every object they build: a
  dictionary has each key once, an object is stored under its own id, and no creation
  date or timestamp is empty (\<^verbatim>\<open>x or datetime.now().isoformat()\<close> never is).
\<close>

definition customer_entry_ok :: "string \<times> customer \<Rightarrow> bool" where
  "customer_entry_ok e = (fst e = c_id (snd e) \<and> c_created_date (snd e) \<noteq> [])"

definition transaction_ok :: "transaction \<Rightarrow> bool" where
  "transaction_ok t = (t_timestamp t \<noteq> [])"

definition account_entry_ok :: "string \<times> account \<Rightarrow> bool" where
  "account_entry_ok e =
   (fst e = a_id (snd e) \<and> a_created_date (snd e) \<noteq> [] \<and>
    list_all transaction_ok (a_transactions (snd e)))"

definition store_ok :: "bank \<Rightarrow> bool" where
  "store_ok self =
   (distinct (map fst (customers self)) \<and> list_all customer_entry_ok (customers self) \<and>
    distinct (map fst (accounts self)) \<and> list_all account_entry_ok (accounts self))"

section \<open>Example states\<close>

text \<open>
  States reached by the operations above, used to run the theorems on concrete inputs.
  \<open>account_70\<close> is the account of the specification's first end-to-end scenario: a
  deposit of 100 and a withdrawal of 30 on a new account.
\<close>

definition fresh_account :: account where
  "fresh_account =
   Account_init ''2024-01-01T09:01:00'' ''ACC000001'' ''c1'' ''savings'' 0 ''active'' None"

definition account_100 :: account where
  "account_100 = snd (deposit ''t1'' ''2024-01-02T10:00:00'' 100 ''Deposit'' fresh_account)"

definition account_70 :: account where
  "account_70 = snd (withdraw ''t2'' ''2024-01-03T11:00:00'' 30 ''Withdrawal'' account_100)"

text \<open>
  A bank with one customer and two accounts: \<open>bank_two\<close> holds \<^verbatim>\<open>ACC000001\<close> with 50
  (opened with no initial deposit, then a deposit of 50) and \<^verbatim>\<open>ACC000002\<close> with 0.
  \<open>bank_a50_b0\<close> is the specification's transfer scenario: \<^verbatim>\<open>ACC000001\<close> opened with an
  initial deposit of 50 and \<^verbatim>\<open>ACC000002\<close> opened with none.
\<close>

definition bank_alice :: bank where
  "bank_alice =
   snd (create_customer ''c1'' ''2024-01-01T09:00:00'' ''Alice'' ''alice@example.com''
          ''555-0100'' ''1 Main St'' empty_bank)"

definition bank_a0 :: bank where
  "bank_a0 =
   snd (create_account ''2024-01-01T09:01:00'' ''t0'' ''2024-01-01T09:01:00'' ''c1''
          ''savings'' 0 bank_alice)"

definition bank_a0_b0 :: bank where
  "bank_a0_b0 =
   snd (create_account ''2024-01-01T09:02:00'' ''t0'' ''2024-01-01T09:02:00'' ''c1''
          ''checking'' 0 bank_a0)"

definition bank_two :: bank where
  "bank_two =
   snd (ui_deposit ''t1'' ''2024-01-02T10:00:00'' ''ACC000001'' 50 ''Deposit'' bank_a0_b0)"

definition bank_a50 :: bank where
  "bank_a50 =
   snd (create_account ''2024-01-01T09:01:00'' ''t0'' ''2024-01-01T09:01:30'' ''c1''
          ''savings'' 50 bank_alice)"

definition bank_a50_b0 :: bank where
  "bank_a50_b0 =
   snd (create_account ''2024-01-01T09:02:00'' ''t0'' ''2024-01-01T09:02:00'' ''c1''
          ''checking'' 0 bank_a50)"

definition bank_a50_b0_transferred :: bank where
  "bank_a50_b0_transferred =
   snd (transfer_funds ''t2'' ''2024-01-03T11:00:00'' ''t3'' ''2024-01-03T11:00:00''
          ''ACC000001'' ''ACC000002'' 50 ''Transfer'' bank_a50_b0)"

definition self_transfer_10 :: ledger_op where
  "self_transfer_10 =
   Transfer ''t2'' ''2024-01-03T11:00:00'' ''t3'' ''2024-01-03T11:00:00''
     ''ACC000001'' ''ACC000001'' 10 ''Transfer''"

definition transfer_20 :: ledger_op where
  "transfer_20 =
   Transfer ''t2'' ''2024-01-03T11:00:00'' ''t3'' ''2024-01-03T11:00:00''
     ''ACC000001'' ''ACC000002'' 20 ''Transfer''"

definition withdraw_30 :: ledger_op where
  "withdraw_30 = Withdraw ''t4'' ''2024-01-04T12:00:00'' ''ACC000001'' 30 ''Withdrawal''"

definition bank_negative_transfer :: bank where
  "bank_negative_transfer =
   snd (transfer_funds ''t2'' ''2024-01-03T11:00:00'' ''t3'' ''2024-01-03T11:00:00''
          ''ACC000001'' ''ACC000002'' (- 10) ''Transfer'' bank_two)"


definition account_B :: account where
  "account_B =
   Account_init ''2024-01-01T09:02:00'' ''ACC000002'' ''c1'' ''checking'' 0 ''active'' None"

definition account_A50 :: account where
  "account_A50 = snd (deposit ''t1'' ''2024-01-02T10:00:00'' 50 ''Deposit'' fresh_account)"

definition account_A100 :: account where
  "account_A100 =
   snd (deposit ''t0'' ''2024-01-01T09:01:30'' 50 ''Initial deposit''
          (Account_init ''2024-01-01T09:01:00'' ''ACC000001'' ''c1'' ''savings'' 50 ''active''
             None))"

text \<open>The account \<^verbatim>\<open>ACC000002\<close> as the transfer of -10 leaves it, with the balance -10.\<close>

definition account_B_minus_10 :: account where
  "account_B_minus_10 =
   add_transaction
     (Transaction_init ''2024-01-03T11:00:00'' ''t3'' ''ACC000002'' ''transfer_in'' (- 10)
        (- 10) ''Transfer from ACC000001: Transfer'' None (Some ''ACC000001''))
     (account_B\<lparr>a_balance := - 10\<rparr>)"

definition bank_after_ops :: bank where
  "bank_after_ops = apply_op withdraw_30 (apply_op transfer_20 bank_two)"

text \<open>
  The user store after the first start (\<open>auth_boot\<close>: the default administrator only),
  after the registration of the customer \<^verbatim>\<open>bob\<close>, and after \<^verbatim>\<open>bob\<close> is deactivated.
  \<open>demo_hash\<close> stands in for SHA-256 in the examples; the theorems hold for every hash
  function.
\<close>

definition demo_hash :: "string \<Rightarrow> string" where
  "demo_hash password = ''sha256:'' @ password"

definition auth_boot :: auth_service where
  "auth_boot = create_default_admin demo_hash ''u0'' ''2024-01-01T08:00:00'' \<lparr>users = []\<rparr>"

definition auth_bob :: auth_service where
  "auth_bob =
   snd (register_user demo_hash ''u1'' ''2024-01-01T08:30:00'' ''bob'' ''bob@example.com''
          ''secret1'' ''customer'' ''Bob'' ''555-0101'' None auth_boot)"

definition auth_bob_inactive :: auth_service where
  "auth_bob_inactive = snd (update_user_status ''bob'' False auth_bob)"

definition admin_user :: user where
  "admin_user =
   create_user demo_hash ''u0'' ''2024-01-01T08:00:00'' ''admin'' ''admin@bank.com''
     ''admin123'' ''admin'' ''System Administrator'' ''1234567890'' None"

definition bob_user :: user where
  "bob_user =
   create_user demo_hash ''u1'' ''2024-01-01T08:30:00'' ''bob'' ''bob@example.com''
     ''secret1'' ''customer'' ''Bob'' ''555-0101'' None"

section \<open>The example states, evaluated\<close>

lemma format_06d_examples: "format_06d (Suc 0) = ''000001''" "format_06d (Suc (Suc 0)) = ''000002''"
  by code_simp+

lemma customers_bank_alice:
  "customers bank_alice =
   [(''c1'', Customer_init ''2024-01-01T09:00:00'' ''c1'' ''Alice'' ''alice@example.com''
               ''555-0100'' ''1 Main St'' None)]"
  and accounts_bank_alice: "accounts bank_alice = []"
  by (simp_all add: bank_alice_def create_customer_def empty_bank_def Let_def)

lemma accounts_bank_a0: "accounts bank_a0 = [(''ACC000001'', fresh_account)]"
  and customers_bank_a0: "customers bank_a0 = customers bank_alice"
  by (simp_all add: bank_a0_def create_account_def customers_bank_alice accounts_bank_alice
      format_06d_examples fresh_account_def Let_def)

lemma accounts_bank_a0_b0:
  "accounts bank_a0_b0 = [(''ACC000001'', fresh_account), (''ACC000002'', account_B)]"
  by (simp add: bank_a0_b0_def create_account_def customers_bank_a0 customers_bank_alice
      accounts_bank_a0 format_06d_examples account_B_def Let_def)

lemma accounts_bank_two:
  "accounts bank_two = [(''ACC000001'', account_A50), (''ACC000002'', account_B)]"
  by (simp add: bank_two_def ui_deposit_def get_account_def accounts_bank_a0_b0
      modify_account_def account_A50_def split: prod.splits)

lemma accounts_bank_a50: "accounts bank_a50 = [(''ACC000001'', account_A100)]"
  and customers_bank_a50: "customers bank_a50 = customers bank_alice"
  by (simp_all add: bank_a50_def create_account_def customers_bank_alice accounts_bank_alice
      format_06d_examples account_A100_def Let_def deposit_def split: prod.splits)

lemma accounts_bank_a50_b0:
  "accounts bank_a50_b0 = [(''ACC000001'', account_A100), (''ACC000002'', account_B)]"
  by (simp add: bank_a50_b0_def create_account_def customers_bank_a50 customers_bank_alice
      accounts_bank_a50 format_06d_examples account_B_def Let_def)

lemma account_A50_fields:
  "a_balance account_A50 = 50"
  "a_transactions account_A50 =
     [Transaction_init ''2024-01-02T10:00:00'' ''t1'' ''ACC000001'' ''deposit'' 50 50 ''Deposit''
        None None]"
  by (simp_all add: account_A50_def fresh_account_def deposit_def Account_init_def Let_def)

lemma account_A100_fields:
  "a_balance account_A100 = 100"
  "a_transactions account_A100 =
     [Transaction_init ''2024-01-01T09:01:30'' ''t0'' ''ACC000001'' ''deposit'' 50 100
        ''Initial deposit'' None None]"
  by (simp_all add: account_A100_def deposit_def Account_init_def Let_def)

lemma account_B_fields: "a_balance account_B = 0" "a_transactions account_B = []"
  by (simp_all add: account_B_def Account_init_def)

lemma get_account_bank_two:
  "get_account bank_two ''ACC000001'' = Some account_A50"
  "get_account bank_two ''ACC000002'' = Some account_B"
  by (simp_all add: get_account_def accounts_bank_two)

lemma accounts_after_transfer_20:
  "accounts (apply_op transfer_20 bank_two) =
   [(''ACC000001'',
     add_transaction
       (Transaction_init ''2024-01-03T11:00:00'' ''t2'' ''ACC000001'' ''transfer_out'' 20 30
          ''Transfer to ACC000002: Transfer'' None (Some ''ACC000002''))
       (account_A50\<lparr>a_balance := 30\<rparr>)),
    (''ACC000002'',
     add_transaction
       (Transaction_init ''2024-01-03T11:00:00'' ''t3'' ''ACC000002'' ''transfer_in'' 20 20
          ''Transfer from ACC000001: Transfer'' None (Some ''ACC000001''))
       (account_B\<lparr>a_balance := 20\<rparr>))]"
  and succeeds_transfer_20: "succeeds transfer_20 bank_two"
  by (simp_all add: transfer_20_def transfer_funds_def get_account_def accounts_bank_two
      account_A50_fields account_B_fields modify_account_def Let_def)

lemma succeeds_withdraw_30: "succeeds withdraw_30 (apply_op transfer_20 bank_two)"
  by (simp add: withdraw_30_def ui_withdraw_def get_account_def accounts_after_transfer_20
      withdraw_def add_transaction_def Let_def split: prod.splits)

lemma run_ops_bank_two: "run_ops [transfer_20, withdraw_30] bank_two = Some bank_after_ops"
  by (simp add: succeeds_transfer_20 succeeds_withdraw_30 bank_after_ops_def)

lemma account_A50_matches_log: "balance_matches_log account_A50"
  by (simp add: balance_matches_log_def account_A50_fields Transaction_init_def)

lemma get_customer_bank_alice:
  "get_customer bank_alice ''c2'' = None"
  "map_option c_email (get_customer bank_alice ''c1'') = Some ''alice@example.com''"
  by (simp_all add: get_customer_def customers_bank_alice Customer_init_def)

lemma users_auth_boot: "users auth_boot = [(''admin'', admin_user)]"
  by (simp add: auth_boot_def create_default_admin_def admin_user_def Let_def)

lemma admin_user_fields:
  "u_is_active admin_user" "u_username admin_user = ''admin''"
  "u_email admin_user = ''admin@bank.com''"
  "u_password_hash admin_user = demo_hash ''admin123''"
  by (simp_all add: admin_user_def create_user_def User_init_def)

lemma bob_user_fields:
  "u_is_active bob_user" "u_password_hash bob_user = demo_hash ''secret1''"
  by (simp_all add: bob_user_def create_user_def User_init_def)

lemma users_auth_bob: "users auth_bob = [(''admin'', admin_user), (''bob'', bob_user)]"
  by (simp add: auth_bob_def register_user_def users_auth_boot admin_user_fields bob_user_def
      Let_def)

lemma users_auth_bob_inactive:
  "users auth_bob_inactive =
   [(''admin'', admin_user), (''bob'', set_active_status False bob_user)]"
  by (simp add: auth_bob_inactive_def update_user_status_def users_auth_bob)

lemma account_70_transactions:
  "a_transactions account_70 =
   [Transaction_init ''2024-01-02T10:00:00'' ''t1'' ''ACC000001'' ''deposit'' 100 100
      ''Deposit'' None None,
    Transaction_init ''2024-01-03T11:00:00'' ''t2'' ''ACC000001'' ''withdraw'' 30 70
      ''Withdrawal'' None None]"
  by (simp add: account_70_def account_100_def fresh_account_def deposit_def withdraw_def
      Account_init_def Let_def)

lemma ts_order: "''2024-01-02T10:00:00'' \<le> ''2024-01-03T11:00:00''"
   "\<not> ''2024-01-03T11:00:00'' \<le> ''2024-01-02T10:00:00''"
  by code_simp+

lemma get_account_bank_negative_transfer:
  "get_account bank_negative_transfer ''ACC000002'' = Some account_B_minus_10"
  by (simp add: bank_negative_transfer_def transfer_funds_def get_account_def accounts_bank_two
      account_A50_fields account_B_fields modify_account_def account_B_minus_10_def Let_def)

lemma a_balance_account_B_minus_10: "a_balance account_B_minus_10 = - 10"
  by (simp add: account_B_minus_10_def add_transaction_def)

section \<open>Withdrawals beyond the balance\<close>

text \<open>
  C7, as the code has it. For every account and every amount strictly greater than the
  balance, \<open>withdraw\<close> raises and the account after the call is the account before it:
  the same balance and the same transaction list. The amount is checked first, so the
  error is \<^verbatim>\<open>ValueError("Insufficient funds")\<close> when the amount is positive, as it always
  is when the balance is not negative, and \<^verbatim>\<open>ValueError("Withdrawal amount must be
  positive")\<close> when the amount is zero or negative.
\<close>

theorem withdraw_over_balance:
  assumes "a_balance self < amount"
  shows "withdraw uuid now amount description self =
           (Inl (ValueError (if 0 < amount then ''Insufficient funds''
                             else ''Withdrawal amount must be positive'')), self)"
  using assms by (simp add: withdraw_def)

theorem withdraw_over_balance_witness:
  "a_balance account_70 < 100 \<and>
   withdraw ''t3'' ''2024-01-04T12:00:00'' 100 ''Withdrawal'' account_70 =
     (Inl (ValueError ''Insufficient funds''), account_70)"
proof -
  have b: "a_balance account_70 = 70"
    by (simp add: account_70_def account_100_def fresh_account_def withdraw_def deposit_def
        Account_init_def Let_def)
  have h: "a_balance account_70 < 100"
    by (simp add: b)
  from withdraw_over_balance [OF h, of "''t3''" "''2024-01-04T12:00:00''" "''Withdrawal''"] h
  show ?thesis by simp
qed

text \<open>
  C7 as stated, \<^verbatim>\<open>Insufficient funds\<close> for every account and every amount above the
  balance, fails on an account with a negative balance: \<^verbatim>\<open>ACC000002\<close> holds -10 after
  the transfer of -10, the amount -5 is greater than its balance, and the withdrawal is
  refused for the amount, not for the funds.
\<close>

theorem withdraw_negative_balance_invalid_amount:
  "get_account bank_negative_transfer ''ACC000002'' = Some account_B_minus_10 \<and>
   a_balance account_B_minus_10 < - 5 \<and>
   withdraw ''t5'' ''2024-01-05T09:00:00'' (- 5) ''Withdrawal'' account_B_minus_10 =
     (Inl (ValueError ''Withdrawal amount must be positive''), account_B_minus_10)"
  by (simp add: get_account_bank_negative_transfer a_balance_account_B_minus_10 withdraw_def)

section \<open>The store under the ledger operations\<close>

lemma update_fresh: "map_of xs k = None \<Longrightarrow> AList.update k v xs = xs @ [(k, v)]"
  by (induction xs) (auto split: if_splits)

lemma map_of_modify_account:
  "map_of (accounts (modify_account k f s)) =
   (map_of (accounts s))(k := map_option f (map_of (accounts s) k))"
  by (auto simp: modify_account_def AList.map_of_map_entry fun_eq_iff split: option.splits)

lemma keys_map_entry: "map fst (AList.map_entry k f xs) = map fst xs"
  by (induction xs) auto

lemma keys_modify_account: "map fst (accounts (modify_account k f s)) = map fst (accounts s)"
  by (simp add: modify_account_def keys_map_entry)

lemma customers_modify_account: "customers (modify_account k f s) = customers s"
  by (simp add: modify_account_def)

lemma transfer_funds_ok:
  assumes "map_of (accounts s) from_id = Some A" and "map_of (accounts s) to_id = Some B"
    and "amount \<le> a_balance A"
  shows "transfer_funds uuid1 now1 uuid2 now2 from_id to_id amount description s =
    (Inr (Transaction_init now1 uuid1 from_id ''transfer_out'' amount (a_balance A - amount)
            (''Transfer to '' @ to_id @ '': '' @ description) None (Some to_id),
          Transaction_init now2 uuid2 to_id ''transfer_in'' amount (a_balance B + amount)
            (''Transfer from '' @ from_id @ '': '' @ description) None (Some from_id)),
     modify_account to_id
       (add_transaction (Transaction_init now2 uuid2 to_id ''transfer_in'' amount
          (a_balance B + amount) (''Transfer from '' @ from_id @ '': '' @ description) None
          (Some from_id)))
       (modify_account from_id
          (add_transaction (Transaction_init now1 uuid1 from_id ''transfer_out'' amount
             (a_balance A - amount) (''Transfer to '' @ to_id @ '': '' @ description) None
             (Some to_id)))
          (modify_account to_id (\<lambda>a. a\<lparr>a_balance := a_balance a + amount\<rparr>)
             (modify_account from_id (\<lambda>a. a\<lparr>a_balance := a_balance a - amount\<rparr>) s))))"
  using assms by (simp add: transfer_funds_def get_account_def Let_def)

section \<open>Transfers between two accounts\<close>

text \<open>
  C2. For two distinct accounts \<open>A\<close> and \<open>B\<close> of the store and an amount that \<open>A\<close>'s
  balance covers, \<open>transfer_funds\<close> succeeds. Afterwards \<open>A\<close> is \<open>A\<close> with its balance
  lowered by the amount and one transaction appended, a \<^verbatim>\<open>transfer_out\<close> that references
  \<open>B\<close> and carries \<open>A\<close>'s new balance; \<open>B\<close> is \<open>B\<close> with its balance raised by the amount
  and one transaction appended, a \<^verbatim>\<open>transfer_in\<close> that references \<open>A\<close> and carries \<open>B\<close>'s
  new balance. Every other account is what it was, the accounts dictionary has the same
  keys in the same order, and the customers are untouched.
\<close>

theorem transfer_funds_between_distinct_accounts:
  assumes "from_id \<noteq> to_id"
    and "get_account s from_id = Some A" and "get_account s to_id = Some B"
    and "amount \<le> a_balance A"
  shows "\<exists>ft tt s'.
     transfer_funds uuid1 now1 uuid2 now2 from_id to_id amount description s = (Inr (ft, tt), s') \<and>
     get_account s' from_id =
       Some (A\<lparr>a_balance := a_balance A - amount, a_transactions := a_transactions A @ [ft]\<rparr>) \<and>
     get_account s' to_id =
       Some (B\<lparr>a_balance := a_balance B + amount, a_transactions := a_transactions B @ [tt]\<rparr>) \<and>
     t_type ft = ''transfer_out'' \<and> t_account_id ft = from_id \<and> t_amount ft = amount \<and>
     t_reference_account ft = Some to_id \<and> t_balance_after ft = a_balance A - amount \<and>
     t_type tt = ''transfer_in'' \<and> t_account_id tt = to_id \<and> t_amount tt = amount \<and>
     t_reference_account tt = Some from_id \<and> t_balance_after tt = a_balance B + amount \<and>
     (\<forall>k. k \<noteq> from_id \<and> k \<noteq> to_id \<longrightarrow> get_account s' k = get_account s k) \<and>
     map fst (accounts s') = map fst (accounts s) \<and>
     customers s' = customers s"
proof -
  from assms have A: "map_of (accounts s) from_id = Some A" and B: "map_of (accounts s) to_id = Some B"
    by (simp_all add: get_account_def)
  note eq = transfer_funds_ok [OF A B assms(4), of uuid1 now1 uuid2 now2 description]
  show ?thesis
    unfolding eq using assms(1) A B
    by (simp add: get_account_def map_of_modify_account keys_modify_account
        customers_modify_account add_transaction_def Transaction_init_def)
qed


theorem transfer_funds_between_distinct_accounts_witness:
  "''ACC000001'' \<noteq> ''ACC000002'' \<and>
   get_account bank_two ''ACC000001'' = Some account_A50 \<and>
   get_account bank_two ''ACC000002'' = Some account_B \<and>
   20 \<le> a_balance account_A50 \<and>
   (\<exists>ft tt s'.
      transfer_funds ''t2'' ''2024-01-03T11:00:00'' ''t3'' ''2024-01-03T11:00:00''
        ''ACC000001'' ''ACC000002'' 20 ''Transfer'' bank_two = (Inr (ft, tt), s') \<and>
      balance_of s' ''ACC000001'' = Some 30 \<and> balance_of s' ''ACC000002'' = Some 20 \<and>
      t_balance_after ft = 30 \<and> t_balance_after tt = 20)"
proof -
  have h1: "''ACC000001'' \<noteq> ''ACC000002''" by simp
  have h4: "20 \<le> a_balance account_A50" by (simp add: account_A50_fields)
  from transfer_funds_between_distinct_accounts
         [OF h1 get_account_bank_two(1) get_account_bank_two(2) h4,
          of "''t2''" "''2024-01-03T11:00:00''" "''t3''" "''2024-01-03T11:00:00''" "''Transfer''"]
  obtain ft tt s' where
    "transfer_funds ''t2'' ''2024-01-03T11:00:00'' ''t3'' ''2024-01-03T11:00:00''
        ''ACC000001'' ''ACC000002'' 20 ''Transfer'' bank_two = (Inr (ft, tt), s')"
    "get_account s' ''ACC000001'' =
       Some (account_A50\<lparr>a_balance := a_balance account_A50 - 20,
                          a_transactions := a_transactions account_A50 @ [ft]\<rparr>)"
    "get_account s' ''ACC000002'' =
       Some (account_B\<lparr>a_balance := a_balance account_B + 20,
                        a_transactions := a_transactions account_B @ [tt]\<rparr>)"
    "t_balance_after ft = a_balance account_A50 - 20"
    "t_balance_after tt = a_balance account_B + 20"
    by (elim exE conjE) (rule that; assumption)
  then have "transfer_funds ''t2'' ''2024-01-03T11:00:00'' ''t3'' ''2024-01-03T11:00:00''
        ''ACC000001'' ''ACC000002'' 20 ''Transfer'' bank_two = (Inr (ft, tt), s') \<and>
      balance_of s' ''ACC000001'' = Some 30 \<and> balance_of s' ''ACC000002'' = Some 20 \<and>
      t_balance_after ft = 30 \<and> t_balance_after tt = 20"
    by (simp add: balance_of_def get_account_def account_A50_fields account_B_fields)
  then have "\<exists>ft tt s'.
      transfer_funds ''t2'' ''2024-01-03T11:00:00'' ''t3'' ''2024-01-03T11:00:00''
        ''ACC000001'' ''ACC000002'' 20 ''Transfer'' bank_two = (Inr (ft, tt), s') \<and>
      balance_of s' ''ACC000001'' = Some 30 \<and> balance_of s' ''ACC000002'' = Some 20 \<and>
      t_balance_after ft = 30 \<and> t_balance_after tt = 20"
    by (intro exI [of _ ft] exI [of _ tt] exI [of _ s'])
  with h1 h4 get_account_bank_two show ?thesis by (intro conjI)
qed

section \<open>The balance and the log\<close>

text \<open>An account as \<open>create_account\<close> returns it agrees with its log.\<close>

lemma create_account_balance_matches_log:
  assumes "create_account now uuid now_t customer_id account_type initial_deposit s = (Inr a, s')"
  shows "balance_matches_log a"
  using assms
  by (auto simp: create_account_def balance_matches_log_def deposit_def Account_init_def
      Transaction_init_def Let_def split: if_splits)

lemma ui_deposit_account:
  assumes "map_of (accounts s) k = Some a"
  shows "\<exists>a'. map_of (accounts (snd (ui_deposit uuid now account_id amount d s))) k = Some a' \<and>
     (a' = a \<or> (\<exists>t. a_transactions a' = a_transactions a @ [t] \<and> a_balance a' = t_balance_after t))"
  using assms
  by (auto simp: ui_deposit_def get_account_def deposit_def map_of_modify_account Let_def
      Transaction_init_def split: option.splits)

lemma ui_withdraw_account:
  assumes "map_of (accounts s) k = Some a"
  shows "\<exists>a'. map_of (accounts (snd (ui_withdraw uuid now account_id amount d s))) k = Some a' \<and>
     (a' = a \<or> (\<exists>t. a_transactions a' = a_transactions a @ [t] \<and> a_balance a' = t_balance_after t))"
  using assms
  by (auto simp: ui_withdraw_def get_account_def withdraw_def map_of_modify_account Let_def
      Transaction_init_def split: option.splits)

lemma transfer_funds_account:
  assumes "map_of (accounts s) k = Some a" and "\<not> (from_id = to_id \<and> from_id = k)"
  shows "\<exists>a'. map_of (accounts (snd (transfer_funds uuid1 now1 uuid2 now2 from_id to_id amount d s))) k = Some a' \<and>
     (a' = a \<or> (\<exists>t. a_transactions a' = a_transactions a @ [t] \<and> a_balance a' = t_balance_after t))"
proof (cases "\<exists>A B. map_of (accounts s) from_id = Some A \<and> map_of (accounts s) to_id = Some B \<and> amount \<le> a_balance A")
  case True
  then obtain A B where A: "map_of (accounts s) from_id = Some A"
    and B: "map_of (accounts s) to_id = Some B" and le: "amount \<le> a_balance A"
    by blast
  show ?thesis
    unfolding transfer_funds_ok [OF A B le] using assms A B
    by (auto simp: map_of_modify_account add_transaction_def Transaction_init_def)
next
  case False
  then have "snd (transfer_funds uuid1 now1 uuid2 now2 from_id to_id amount d s) = s"
    by (auto simp: transfer_funds_def get_account_def split: option.splits)
  with assms show ?thesis by simp
qed

lemma apply_op_account:
  assumes "map_of (accounts s) k = Some a" and "\<not> self_transfer_on k x"
  shows "\<exists>a'. map_of (accounts (apply_op x s)) k = Some a' \<and>
     (a' = a \<or> (\<exists>t. a_transactions a' = a_transactions a @ [t] \<and> a_balance a' = t_balance_after t))"
proof (cases x)
  case (Deposit uuid now account_id amount d)
  then show ?thesis using ui_deposit_account [OF assms(1)] by simp
next
  case (Withdraw uuid now account_id amount d)
  then show ?thesis using ui_withdraw_account [OF assms(1)] by simp
next
  case (Transfer uuid1 now1 uuid2 now2 from_id to_id amount d)
  with assms(2) have "\<not> (from_id = to_id \<and> from_id = k)" by simp
  from transfer_funds_account [OF assms(1) this] Transfer show ?thesis by simp
qed

lemma run_ops_account:
  assumes "run_ops ops s = Some s'" and "map_of (accounts s) k = Some a"
    and "\<not> list_ex (self_transfer_on k) ops"
  shows "\<exists>a'. map_of (accounts s') k = Some a' \<and>
     (a' = a \<or> (\<exists>ts t. a_transactions a' = a_transactions a @ ts @ [t] \<and>
                       a_balance a' = t_balance_after t))"
  using assms
proof (induction ops arbitrary: s a)
  case Nil
  then show ?case by simp
next
  case (Cons x xs)
  from Cons.prems(1) have run: "run_ops xs (apply_op x s) = Some s'"
    by (simp split: if_splits)
  from Cons.prems(3) have nx: "\<not> self_transfer_on k x"
    and nxs: "\<not> list_ex (self_transfer_on k) xs"
    by simp_all
  from apply_op_account [OF Cons.prems(2) nx] obtain a1 where
    a1: "map_of (accounts (apply_op x s)) k = Some a1"
    and step: "a1 = a \<or> (\<exists>t. a_transactions a1 = a_transactions a @ [t] \<and> a_balance a1 = t_balance_after t)"
    by blast
  from Cons.IH [OF run a1 nxs] obtain a' where
    a': "map_of (accounts s') k = Some a'"
    and rest: "a' = a1 \<or> (\<exists>ts t. a_transactions a' = a_transactions a1 @ ts @ [t] \<and>
                       a_balance a' = t_balance_after t)"
    by blast
  from step rest have "a' = a \<or> (\<exists>ts t. a_transactions a' = a_transactions a @ ts @ [t] \<and>
                       a_balance a' = t_balance_after t)"
  proof (elim disjE exE conjE)
    fix t assume "a' = a1" "a_transactions a1 = a_transactions a @ [t]" "a_balance a1 = t_balance_after t"
    then have "a_transactions a' = a_transactions a @ [] @ [t] \<and> a_balance a' = t_balance_after t"
      by simp
    then show ?thesis by blast
  next
    fix t ts u
    assume "a_transactions a1 = a_transactions a @ [t]"
      "a_transactions a' = a_transactions a1 @ ts @ [u]" "a_balance a' = t_balance_after u"
    then have "a_transactions a' = a_transactions a @ (t # ts) @ [u] \<and> a_balance a' = t_balance_after u"
      by simp
    then show ?thesis by blast
  qed auto
  with a' show ?case by blast
qed

text \<open>
  Every other path keeps the balance and the log together. Let the account \<open>a\<close> under
  the id \<open>k\<close> agree with its log (as every account does when \<open>create_account\<close> returns
  it), and let the deposits, withdrawals and transfers \<open>ops\<close> all succeed, none of them a
  transfer from \<open>k\<close> to \<open>k\<close>. Then the account under \<open>k\<close> afterwards has the
  \<^verbatim>\<open>balance_after\<close> of the last transaction of its log as its balance; when its log is
  empty, no operation has touched it and its balance is the one it started with.
\<close>

lemma ledger_ops_keep_balance_and_log:
  assumes "run_ops ops s = Some s'" and "\<not> list_ex (self_transfer_on k) ops"
    and "get_account s k = Some a" and "balance_matches_log a"
  shows "\<exists>a'. get_account s' k = Some a' \<and>
     (if a_transactions a' = [] then a_balance a' = a_balance a
      else a_balance a' = t_balance_after (last (a_transactions a')))"
proof -
  from assms(3) have "map_of (accounts s) k = Some a" by (simp add: get_account_def)
  from run_ops_account [OF assms(1) this assms(2)] obtain a' where
    a': "map_of (accounts s') k = Some a'"
    and rel: "a' = a \<or> (\<exists>ts t. a_transactions a' = a_transactions a @ ts @ [t] \<and>
                       a_balance a' = t_balance_after t)"
    by blast
  from rel assms(4) have "if a_transactions a' = [] then a_balance a' = a_balance a
      else a_balance a' = t_balance_after (last (a_transactions a'))"
    by (auto simp: balance_matches_log_def)
  with a' show ?thesis by (simp add: get_account_def)
qed

lemma ledger_ops_keep_balance_and_log_example:
  "run_ops [transfer_20, withdraw_30] bank_two = Some bank_after_ops \<and>
   \<not> list_ex (self_transfer_on ''ACC000001'') [transfer_20, withdraw_30] \<and>
   get_account bank_two ''ACC000001'' = Some account_A50 \<and>
   balance_matches_log account_A50 \<and>
   (\<exists>a'. get_account bank_after_ops ''ACC000001'' = Some a' \<and>
     (if a_transactions a' = [] then a_balance a' = a_balance account_A50
      else a_balance a' = t_balance_after (last (a_transactions a'))))"
proof -
  have h2: "\<not> list_ex (self_transfer_on ''ACC000001'') [transfer_20, withdraw_30]"
    by (simp add: transfer_20_def withdraw_30_def)
  from ledger_ops_keep_balance_and_log
         [OF run_ops_bank_two h2 get_account_bank_two(1) account_A50_matches_log]
       run_ops_bank_two h2 get_account_bank_two(1) account_A50_matches_log
  show ?thesis by (intro conjI)
qed

text \<open>
  C1 on the code. \<open>transfer_funds\<close> builds both transactions from the balances read
  before either balance is changed. When the source and the destination are one account,
  the two updates cancel and the log ends with a \<^verbatim>\<open>transfer_in\<close> that records the old
  balance plus the amount: on \<open>bank_two\<close> the transfer of 10 from \<^verbatim>\<open>ACC000001\<close> to
  \<^verbatim>\<open>ACC000001\<close> succeeds, the balance stays 50, and the \<^verbatim>\<open>balance_after\<close> of the
  transaction appended last is 60.
\<close>

theorem self_transfer_breaks_log:
  "run_ops [self_transfer_10] bank_two = Some (apply_op self_transfer_10 bank_two) \<and>
   balance_of (apply_op self_transfer_10 bank_two) ''ACC000001'' = Some 50 \<and>
   last_balance_after (apply_op self_transfer_10 bank_two) ''ACC000001'' = Some 60"
  by (simp add: self_transfer_10_def balance_of_def last_balance_after_def accounts_bank_two
      account_A50_fields transfer_funds_def get_account_def modify_account_def Let_def
      add_transaction_def Transaction_init_def)

section \<open>Opening an account with an initial deposit\<close>

text \<open>
  For every positive initial deposit the account returned holds twice the deposit, and
  its log is the one deposit transaction, whose \<^verbatim>\<open>balance_after\<close> is twice the deposit too.
\<close>

lemma create_account_initial_deposit:
  assumes "map_of (customers s) customer_id \<noteq> None" and "0 < initial_deposit"
  shows "\<exists>a s'. create_account now uuid now_t customer_id account_type initial_deposit s =
            (Inr a, s') \<and>
          a_balance a = initial_deposit + initial_deposit \<and>
          a_transactions a =
            [Transaction_init now_t uuid (a_id a) ''deposit'' initial_deposit
               (initial_deposit + initial_deposit) ''Initial deposit'' None None]"
  using assms
  by (simp add: create_account_def deposit_def Account_init_def Let_def)

text \<open>
  C3 on the code. \<open>create_account\<close> passes the initial deposit to \<^verbatim>\<open>Account.__init__\<close> as
  the opening balance and then deposits it again: the account opened with 50 has balance
  100, and its one transaction carries \<^verbatim>\<open>balance_after\<close> 100. After the transfer of 50
  to the second account, the first holds 50 and not 0.
\<close>

theorem initial_deposit_counted_twice:
  "balance_of bank_a50 ''ACC000001'' = Some 100 \<and>
   last_balance_after bank_a50 ''ACC000001'' = Some 100 \<and>
   balance_of bank_a50_b0 ''ACC000002'' = Some 0 \<and>
   balance_of bank_a50_b0_transferred ''ACC000001'' = Some 50 \<and>
   balance_of bank_a50_b0_transferred ''ACC000002'' = Some 50"
  by (simp add: balance_of_def last_balance_after_def accounts_bank_a50 accounts_bank_a50_b0
      account_A100_fields account_B_fields bank_a50_b0_transferred_def transfer_funds_def
      get_account_def modify_account_def Let_def add_transaction_def Transaction_init_def)

section \<open>Transfers of a negative amount\<close>

text \<open>
  C4 on the code. \<open>transfer_funds\<close> does not check the sign of the amount. On \<open>bank_two\<close>
  (balances 50 and 0) the transfer of -10 from \<^verbatim>\<open>ACC000001\<close> to \<^verbatim>\<open>ACC000002\<close> succeeds
  and leaves \<^verbatim>\<open>ACC000002\<close> with the balance -10.
\<close>

theorem transfer_negative_amount:
  "balance_of bank_two ''ACC000001'' = Some 50 \<and>
   balance_of bank_two ''ACC000002'' = Some 0 \<and>
   \<not> isl (fst (transfer_funds ''t2'' ''2024-01-03T11:00:00'' ''t3'' ''2024-01-03T11:00:00''
                 ''ACC000001'' ''ACC000002'' (- 10) ''Transfer'' bank_two)) \<and>
   balance_of bank_negative_transfer ''ACC000002'' = Some (- 10)"
  by (simp add: balance_of_def accounts_bank_two account_A50_fields account_B_fields
      bank_negative_transfer_def transfer_funds_def get_account_def modify_account_def Let_def
      add_transaction_def)

section \<open>Creating a customer\<close>

text \<open>
  C10. \<open>create_customer\<close> has no failing branch: for every name, email, phone and
  address, empty or already in use, it returns a customer with these fields, the id
  \<^verbatim>\<open>uuid4\<close> generated and the clock's reading as creation date, stored under that id.
  The other customers and the accounts are untouched; when the generated id is fresh, as
  \<^verbatim>\<open>uuid4\<close> promises, the dictionary is the old one with the new customer at the end.
\<close>

theorem create_customer_always_succeeds:
  "\<exists>c s'. create_customer uuid now name email phone address s = (Inr c, s') \<and>
     c_id c = uuid \<and> c_name c = name \<and> c_email c = email \<and> c_phone c = phone \<and>
     c_address c = address \<and> c_created_date c = now \<and>
     get_customer s' uuid = Some c \<and>
     (\<forall>k. k \<noteq> uuid \<longrightarrow> get_customer s' k = get_customer s k) \<and>
     (get_customer s uuid = None \<longrightarrow> customers s' = customers s @ [(uuid, c)]) \<and>
     accounts s' = accounts s"
  by (simp add: create_customer_def Customer_init_def or_now_def Let_def get_customer_def
      AList.update_conv' update_fresh)

theorem create_customer_always_succeeds_witness:
  "get_customer bank_alice ''c2'' = None \<and>
   map_option c_email (get_customer bank_alice ''c1'') = Some ''alice@example.com'' \<and>
   (\<exists>c s'. create_customer ''c2'' ''2024-01-05T08:00:00'' [] ''alice@example.com'' [] []
              bank_alice = (Inr c, s') \<and>
      c_id c = ''c2'' \<and> c_name c = [] \<and> c_email c = ''alice@example.com'' \<and>
      get_customer s' ''c2'' = Some c \<and>
      get_customer s' ''c1'' = get_customer bank_alice ''c1'' \<and>
      customers s' = customers bank_alice @ [(''c2'', c)])"
proof -
  from create_customer_always_succeeds
         [of "''c2''" "''2024-01-05T08:00:00''" "[]" "''alice@example.com''" "[]" "[]" bank_alice]
  obtain c s' where
    r: "create_customer ''c2'' ''2024-01-05T08:00:00'' [] ''alice@example.com'' [] []
              bank_alice = (Inr c, s')"
    and f: "c_id c = ''c2''" "c_name c = []" "c_email c = ''alice@example.com''"
      "get_customer s' ''c2'' = Some c"
    and others: "\<forall>k. k \<noteq> ''c2'' \<longrightarrow> get_customer s' k = get_customer bank_alice k"
    and fresh: "get_customer bank_alice ''c2'' = None \<longrightarrow>
                  customers s' = customers bank_alice @ [(''c2'', c)]"
    by (elim exE conjE) (rule that; assumption)
  from others have o: "get_customer s' ''c1'' = get_customer bank_alice ''c1''" by simp
  from fresh get_customer_bank_alice(1)
  have a: "customers s' = customers bank_alice @ [(''c2'', c)]" by simp
  from r f o a have "\<exists>c s'. create_customer ''c2'' ''2024-01-05T08:00:00'' [] ''alice@example.com'' [] []
              bank_alice = (Inr c, s') \<and>
      c_id c = ''c2'' \<and> c_name c = [] \<and> c_email c = ''alice@example.com'' \<and>
      get_customer s' ''c2'' = Some c \<and>
      get_customer s' ''c1'' = get_customer bank_alice ''c1'' \<and>
      customers s' = customers bank_alice @ [(''c2'', c)]"
    by (intro exI [of _ c] exI [of _ s'] conjI)
  with get_customer_bank_alice show ?thesis by (intro conjI)
qed

section \<open>Failed logins\<close>

text \<open>
  C5, as the code has it. A failed login returns \<^verbatim>\<open>(False, message, None)\<close> and leaves
  the user store as it was. For an unknown user name, and for an active user with a
  wrong password, the message is \<^verbatim>\<open>Invalid username or password\<close>; for a deactivated
  user, whatever the password, it is \<^verbatim>\<open>Account is deactivated\<close>.
\<close>

theorem login_failure_messages:
  "(get_user s username = None \<longrightarrow>
      login hash_password now username password s =
        ((False, ''Invalid username or password'', None), s)) \<and>
   (\<forall>u. get_user s username = Some u \<and> u_is_active u \<and>
        \<not> check_password hash_password u password \<longrightarrow>
      login hash_password now username password s =
        ((False, ''Invalid username or password'', None), s)) \<and>
   (\<forall>u. get_user s username = Some u \<and> \<not> u_is_active u \<longrightarrow>
      login hash_password now username password s =
        ((False, ''Account is deactivated'', None), s))"
  by (simp add: login_def get_user_def)

theorem login_failure_messages_witness:
  "get_user auth_bob_inactive ''nobody'' = None \<and>
   login demo_hash ''2024-01-06T09:00:00'' ''nobody'' ''secret1'' auth_bob_inactive =
     ((False, ''Invalid username or password'', None), auth_bob_inactive) \<and>
   get_user auth_bob_inactive ''admin'' = Some admin_user \<and>
   u_is_active admin_user \<and> \<not> check_password demo_hash admin_user ''secret1'' \<and>
   login demo_hash ''2024-01-06T09:00:00'' ''admin'' ''secret1'' auth_bob_inactive =
     ((False, ''Invalid username or password'', None), auth_bob_inactive) \<and>
   get_user auth_bob_inactive ''bob'' = Some (set_active_status False bob_user) \<and>
   \<not> u_is_active (set_active_status False bob_user) \<and>
   login demo_hash ''2024-01-06T09:00:00'' ''bob'' ''secret1'' auth_bob_inactive =
     ((False, ''Account is deactivated'', None), auth_bob_inactive)"
proof -
  have n: "get_user auth_bob_inactive ''nobody'' = None"
    and a: "get_user auth_bob_inactive ''admin'' = Some admin_user"
    and b: "get_user auth_bob_inactive ''bob'' = Some (set_active_status False bob_user)"
    by (simp_all add: get_user_def users_auth_bob_inactive)
  have a1: "u_is_active admin_user" and a2: "\<not> check_password demo_hash admin_user ''secret1''"
    by (simp_all add: admin_user_fields check_password_def demo_hash_def)
  have b1: "\<not> u_is_active (set_active_status False bob_user)"
    by (simp add: set_active_status_def)
  have r1: "login demo_hash ''2024-01-06T09:00:00'' ''nobody'' ''secret1'' auth_bob_inactive =
     ((False, ''Invalid username or password'', None), auth_bob_inactive)"
    using login_failure_messages
            [of auth_bob_inactive "''nobody''" demo_hash "''2024-01-06T09:00:00''" "''secret1''"] n
    by (elim conjE) (erule mp)
  have r2: "login demo_hash ''2024-01-06T09:00:00'' ''admin'' ''secret1'' auth_bob_inactive =
     ((False, ''Invalid username or password'', None), auth_bob_inactive)"
    using login_failure_messages
            [of auth_bob_inactive "''admin''" demo_hash "''2024-01-06T09:00:00''" "''secret1''"]
          a a1 a2
    by (elim conjE allE [of _ admin_user]) (erule mp, intro conjI)
  have r3: "login demo_hash ''2024-01-06T09:00:00'' ''bob'' ''secret1'' auth_bob_inactive =
     ((False, ''Account is deactivated'', None), auth_bob_inactive)"
    using login_failure_messages
            [of auth_bob_inactive "''bob''" demo_hash "''2024-01-06T09:00:00''" "''secret1''"]
          b b1
    by (elim conjE allE [of _ "set_active_status False bob_user"]) (erule (1) mp [OF _ conjI])
  from n r1 a a1 a2 r2 b b1 r3 show ?thesis by (intro conjI)
qed

text \<open>
  C5 as stated, one message for the three cases, fails: in \<open>auth_bob_inactive\<close> the
  deactivated \<^verbatim>\<open>bob\<close> is told that the account is deactivated, the unknown \<^verbatim>\<open>nobody\<close>
  and \<^verbatim>\<open>admin\<close> with a wrong password that the user name or password is invalid.
\<close>

theorem deactivated_login_message_differs:
  "fst (login demo_hash ''2024-01-06T09:00:00'' ''bob'' ''secret1'' auth_bob_inactive) =
     (False, ''Account is deactivated'', None) \<and>
   fst (login demo_hash ''2024-01-06T09:00:00'' ''nobody'' ''secret1'' auth_bob_inactive) =
     (False, ''Invalid username or password'', None) \<and>
   fst (login demo_hash ''2024-01-06T09:00:00'' ''admin'' ''secret1'' auth_bob_inactive) =
     (False, ''Invalid username or password'', None)"
  by (simp add: login_def users_auth_bob_inactive set_active_status_def check_password_def
      admin_user_fields demo_hash_def)

section \<open>The administrator\<close>

lemma delete_user_admin: "delete_user ''admin'' s = (False, s)"
  by (simp add: delete_user_def)


text \<open>
  C6 on the code. \<open>delete_user\<close> refuses the user name \<^verbatim>\<open>admin\<close> and leaves the store
  as it was; \<open>update_user_status\<close> has no such exception: on the store of the first start
  it returns \<^verbatim>\<open>True\<close> for \<^verbatim>\<open>admin\<close>, the administrator is inactive afterwards, and the
  login with the right password is refused.
\<close>

theorem admin_can_be_deactivated:
  "delete_user ''admin'' auth_boot = (False, auth_boot) \<and>
   map_option u_is_active (get_user auth_boot ''admin'') = Some True \<and>
   fst (update_user_status ''admin'' False auth_boot) = True \<and>
   map_option u_is_active
     (get_user (snd (update_user_status ''admin'' False auth_boot)) ''admin'') = Some False \<and>
   fst (login demo_hash ''2024-01-06T09:00:00'' ''admin'' ''admin123''
          (snd (update_user_status ''admin'' False auth_boot))) =
     (False, ''Account is deactivated'', None)"
  by (simp add: delete_user_def update_user_status_def get_user_def users_auth_boot
      admin_user_fields set_active_status_def login_def)

section \<open>The transaction history\<close>

text \<open>
  The history is in descending order of the timestamps, and a positive limit \<open>n\<close> cuts
  it to its first \<open>n\<close> entries.
\<close>

lemma sorted_reverse_descending: "sorted (rev (map k (sorted_reverse k xs)))"
  by (simp add: sorted_reverse_def rev_map)

lemma length_sorted_reverse: "length (sorted_reverse k xs) = length xs"
  by (simp add: sorted_reverse_def)

lemma set_sorted_reverse: "set (sorted_reverse k xs) = set xs"
  by (simp add: sorted_reverse_def)

lemma get_transaction_history_descending:
  "sorted (rev (map t_timestamp (get_transaction_history None self)))"
  by (simp add: get_transaction_history_def sorted_reverse_descending)

lemma get_transaction_history_positive_limit:
  assumes "0 < n"
  shows "get_transaction_history (Some n) self = take (nat n) (get_transaction_history None self)"
    and "length (get_transaction_history (Some n) self) = min (nat n) (length (a_transactions self))"
  using assms
  by (simp_all add: get_transaction_history_def slice_to_def length_sorted_reverse Let_def)

lemma get_transaction_history_limit_zero:
  "get_transaction_history (Some 0) self = get_transaction_history None self"
  by (simp add: get_transaction_history_def)


text \<open>
  C8 on the code. \<^verbatim>\<open>if limit\<close> takes 0 for no limit: on the account with a deposit and
  a later withdrawal, the history with limit 0 has both transactions, not none; with
  limit 1 it has the withdrawal only.
\<close>

theorem history_limit_zero_returns_all:
  "get_transaction_history (Some 0) account_70 =
   [Transaction_init ''2024-01-03T11:00:00'' ''t2'' ''ACC000001'' ''withdraw'' 30 70
      ''Withdrawal'' None None,
    Transaction_init ''2024-01-02T10:00:00'' ''t1'' ''ACC000001'' ''deposit'' 100 100
      ''Deposit'' None None] \<and>
   length (get_transaction_history (Some 0) account_70) = 2 \<and>
   get_transaction_history (Some 1) account_70 =
   [Transaction_init ''2024-01-03T11:00:00'' ''t2'' ''ACC000001'' ''withdraw'' 30 70
      ''Withdrawal'' None None]"
  by (simp add: get_transaction_history_def sorted_reverse_def slice_to_def
      account_70_transactions Transaction_init_def or_now_def ts_order)

section \<open>Saving and loading\<close>

subsection \<open>What every store satisfies\<close>

text \<open>
  \<open>store_ok\<close> holds of the empty store, is kept by every operation of the service (the
  clock never reads as the empty string), and holds of every store that
  \<^verbatim>\<open>BankManagementService.__init__\<close> loads.
\<close>

lemma list_all_update:
  assumes "list_all P xs" and "P (k, v)"
  shows "list_all P (AList.update k v xs)"
  using assms by (induction xs) auto

lemma list_all_map_entry:
  assumes "list_all P xs" and "\<And>v. (k, v) \<in> set xs \<Longrightarrow> P (k, f v)"
  shows "list_all P (AList.map_entry k f xs)"
  using assms by (induction xs) auto

lemma store_ok_empty_bank: "store_ok empty_bank"
  by (simp add: store_ok_def empty_bank_def)

lemma store_ok_create_customer:
  assumes "store_ok s" and "now \<noteq> []"
  shows "store_ok (snd (create_customer uuid now name email phone address s))"
  using assms
  by (simp add: store_ok_def create_customer_def Let_def AList.distinct_update list_all_update
      customer_entry_ok_def Customer_init_def or_now_def)

lemma store_ok_create_account:
  assumes "store_ok s" and "now \<noteq> []" and "now_t \<noteq> []"
  shows "store_ok (snd (create_account now uuid now_t customer_id account_type initial_deposit s))"
  using assms
  by (simp add: store_ok_def create_account_def Let_def AList.distinct_update list_all_update
      account_entry_ok_def Account_init_def Transaction_init_def transaction_ok_def
      deposit_def or_now_def)

lemma store_ok_modify_account:
  assumes "store_ok s"
    and "\<And>a. (k, a) \<in> set (accounts s) \<Longrightarrow> account_entry_ok (k, a) \<Longrightarrow> account_entry_ok (k, f a)"
  shows "store_ok (modify_account k f s)"
proof -
  from assms(1) have all: "list_all account_entry_ok (accounts s)"
    by (simp add: store_ok_def)
  have "list_all account_entry_ok (AList.map_entry k f (accounts s))"
  proof (rule list_all_map_entry [OF all])
    fix v assume v: "(k, v) \<in> set (accounts s)"
    with all have "account_entry_ok (k, v)" by (auto simp: list_all_iff)
    with v show "account_entry_ok (k, f v)" by (rule assms(2))
  qed
  with assms(1) show ?thesis
    by (simp add: store_ok_def modify_account_def AList.distinct_map_entry)
qed

lemma store_ok_ui_deposit:
  assumes "store_ok s" and "now \<noteq> []"
  shows "store_ok (snd (ui_deposit uuid now account_id amount description s))"
proof (cases "map_of (accounts s) account_id")
  case None
  with assms show ?thesis by (simp add: ui_deposit_def get_account_def)
next
  case (Some account)
  then have mem: "(account_id, account) \<in> set (accounts s)" by (rule map_of_SomeD)
  with assms(1) have ok: "account_entry_ok (account_id, account)"
    by (auto simp: store_ok_def list_all_iff)
  have "store_ok (modify_account account_id
          (\<lambda>a. snd (deposit uuid now amount description account)) s)"
    using assms(1)
  proof (rule store_ok_modify_account)
    show "account_entry_ok (account_id, snd (deposit uuid now amount description account))"
      using ok assms(2)
      by (simp add: account_entry_ok_def deposit_def Let_def Transaction_init_def
          transaction_ok_def or_now_def)
  qed
  with Some show ?thesis
    by (auto simp: ui_deposit_def get_account_def split: prod.splits)
qed

lemma store_ok_ui_withdraw:
  assumes "store_ok s" and "now \<noteq> []"
  shows "store_ok (snd (ui_withdraw uuid now account_id amount description s))"
proof (cases "map_of (accounts s) account_id")
  case None
  with assms show ?thesis by (simp add: ui_withdraw_def get_account_def)
next
  case (Some account)
  then have mem: "(account_id, account) \<in> set (accounts s)" by (rule map_of_SomeD)
  with assms(1) have ok: "account_entry_ok (account_id, account)"
    by (auto simp: store_ok_def list_all_iff)
  have "store_ok (modify_account account_id
          (\<lambda>a. snd (withdraw uuid now amount description account)) s)"
    using assms(1)
  proof (rule store_ok_modify_account)
    show "account_entry_ok (account_id, snd (withdraw uuid now amount description account))"
      using ok assms(2)
      by (simp add: account_entry_ok_def withdraw_def Let_def Transaction_init_def
          transaction_ok_def or_now_def)
  qed
  with Some show ?thesis
    by (auto simp: ui_withdraw_def get_account_def split: prod.splits)
qed

lemma store_ok_set_balance:
  assumes "store_ok s"
  shows "store_ok (modify_account k (\<lambda>a. a\<lparr>a_balance := g a\<rparr>) s)"
  using assms by (rule store_ok_modify_account) (simp add: account_entry_ok_def)

lemma store_ok_add_transaction:
  assumes "store_ok s" and "transaction_ok t"
  shows "store_ok (modify_account k (add_transaction t) s)"
  using assms(1)
  by (rule store_ok_modify_account) (simp add: account_entry_ok_def add_transaction_def assms(2))

lemma store_ok_transfer_funds:
  assumes "store_ok s" and "now1 \<noteq> []" and "now2 \<noteq> []"
  shows "store_ok (snd (transfer_funds uuid1 now1 uuid2 now2 from_id to_id amount description s))"
proof -
  have t: "\<And>now u a ty x b d r. now \<noteq> [] \<Longrightarrow>
             transaction_ok (Transaction_init now u a ty x b d None r)"
    by (simp add: transaction_ok_def Transaction_init_def or_now_def)
  show ?thesis
    using assms
    by (simp add: transfer_funds_def get_account_def Let_def store_ok_set_balance
        store_ok_add_transaction t split: option.splits)
qed

lemma or_now_nonempty: "now \<noteq> [] \<Longrightarrow> or_now x now \<noteq> []"
  by (simp add: or_now_def split: option.splits)

lemma Customer_from_dict_ok:
  assumes "Customer_from_dict now v = Inr c" and "now \<noteq> []"
  shows "customer_entry_ok (c_id c, c)"
  using assms
  by (auto simp: Customer_from_dict_def bind_result_def Customer_init_def customer_entry_ok_def
      or_now_nonempty split: pyval.splits sum.splits)

lemma Transaction_from_dict_ok:
  assumes "Transaction_from_dict now v = Inr t" and "now \<noteq> []"
  shows "transaction_ok t"
  using assms
  by (auto simp: Transaction_from_dict_def bind_result_def Transaction_init_def
      transaction_ok_def or_now_nonempty split: pyval.splits sum.splits)

lemma map_result_ok:
  assumes "map_result f xs = Inr ys" and "\<And>x y. f x = Inr y \<Longrightarrow> P y"
  shows "list_all P ys"
  using assms
  by (induction xs arbitrary: ys) (auto simp: bind_result_def split: sum.splits)

lemma Account_from_dict_ok:
  assumes "Account_from_dict now v = Inr a" and "now \<noteq> []"
  shows "account_entry_ok (a_id a, a)"
proof -
  have ts: "\<And>xs ys. map_result (Transaction_from_dict now) xs = Inr ys \<Longrightarrow>
              list_all transaction_ok ys"
    by (erule map_result_ok) (rule Transaction_from_dict_ok [OF _ assms(2)])
  from assms show ?thesis
    by (auto simp: Account_from_dict_def bind_result_def Account_init_def account_entry_ok_def
        or_now_nonempty Let_def ts split: pyval.splits sum.splits)
qed

lemma load_customers_ok:
  assumes "load_customers now ds cs = Inr cs'" and "now \<noteq> []"
    and "distinct (map fst cs)" and "list_all customer_entry_ok cs"
  shows "distinct (map fst cs') \<and> list_all customer_entry_ok cs'"
  using assms
proof (induction ds arbitrary: cs)
  case Nil
  then show ?case by simp
next
  case (Cons d ds)
  from Cons.prems(1) obtain c where c: "Customer_from_dict now d = Inr c"
    and rest: "load_customers now ds (AList.update (c_id c) c cs) = Inr cs'"
    by (auto simp: bind_result_def split: sum.splits)
  from Customer_from_dict_ok [OF c Cons.prems(2)] Cons.prems(4)
  have "list_all customer_entry_ok (AList.update (c_id c) c cs)"
    by (simp add: list_all_update)
  with Cons.IH [OF rest Cons.prems(2)] Cons.prems(3) show ?case
    by (simp add: AList.distinct_update)
qed

lemma load_accounts_ok:
  assumes "load_accounts now ds acs = Inr acs'" and "now \<noteq> []"
    and "distinct (map fst acs)" and "list_all account_entry_ok acs"
  shows "distinct (map fst acs') \<and> list_all account_entry_ok acs'"
  using assms
proof (induction ds arbitrary: acs)
  case Nil
  then show ?case by simp
next
  case (Cons d ds)
  from Cons.prems(1) obtain a where a: "Account_from_dict now d = Inr a"
    and rest: "load_accounts now ds (AList.update (a_id a) a acs) = Inr acs'"
    by (auto simp: bind_result_def split: sum.splits)
  from Account_from_dict_ok [OF a Cons.prems(2)] Cons.prems(4)
  have "list_all account_entry_ok (AList.update (a_id a) a acs)"
    by (simp add: list_all_update)
  with Cons.IH [OF rest Cons.prems(2)] Cons.prems(3) show ?case
    by (simp add: AList.distinct_update)
qed

lemma store_ok_BankManagementService_init:
  assumes "BankManagementService_init now v = Inr s" and "now \<noteq> []"
  shows "store_ok s"
proof -
  from assms(1) obtain ds es where
    c: "load_customers now ds [] = Inr (customers s)"
    and a: "load_accounts now es [] = Inr (accounts s)"
    by (auto simp: BankManagementService_init_def load_data_def empty_bank_def bind_result_def
        split: pyval.splits sum.splits)
  from load_customers_ok [OF c assms(2)] load_accounts_ok [OF a assms(2)]
  show ?thesis by (simp add: store_ok_def)
qed

lemma store_ok_bank_two: "store_ok bank_two"
  unfolding bank_two_def bank_a0_b0_def bank_a0_def bank_alice_def
  by (intro store_ok_ui_deposit store_ok_create_account store_ok_create_customer
      store_ok_empty_bank) simp_all

subsection \<open>The round trip\<close>

lemma Customer_round_trip:
  assumes "c_created_date c \<noteq> []"
  shows "Customer_from_dict now (Customer_to_dict c) = Inr c"
  using assms
  by (simp add: Customer_from_dict_def Customer_to_dict_def str_item_def item_def
      bind_result_def as_str_def as_opt_str_def get_or_def Customer_init_def or_now_def)

lemma Transaction_round_trip:
  assumes "transaction_ok t"
  shows "Transaction_from_dict now (Transaction_to_dict t) = Inr t"
  using assms
  by (simp add: Transaction_from_dict_def Transaction_to_dict_def str_item_def num_item_def
      item_def bind_result_def as_str_def as_num_def as_opt_str_def get_or_def
      Transaction_init_def or_now_def transaction_ok_def split: option.splits)

lemma Transactions_round_trip:
  assumes "list_all transaction_ok ts"
  shows "map_result (Transaction_from_dict now) (map Transaction_to_dict ts) = Inr ts"
  using assms
  by (induction ts) (simp_all add: Transaction_round_trip bind_result_def)

lemma Account_round_trip:
  assumes "a_created_date a \<noteq> []" and "list_all transaction_ok (a_transactions a)"
  shows "Account_from_dict now (Account_to_dict a) = Inr a"
  using assms
  by (simp add: Account_from_dict_def Account_to_dict_def str_item_def num_item_def
      item_def bind_result_def as_str_def as_num_def as_opt_str_def as_list_def get_or_def
      Account_init_def or_now_def Transactions_round_trip)

lemma load_customers_round_trip:
  assumes "list_all customer_entry_ok xs" and "distinct (map fst (cs @ xs))"
  shows "load_customers now (map Customer_to_dict (map snd xs)) cs = Inr (cs @ xs)"
  using assms
proof (induction xs arbitrary: cs)
  case Nil
  then show ?case by simp
next
  case (Cons x xs)
  obtain k c where x: "x = (k, c)" by (cases x)
  from Cons.prems(1) x have ok: "customer_entry_ok (k, c)"
    and rest: "list_all customer_entry_ok xs"
    by simp_all
  from ok have k: "k = c_id c" and d: "c_created_date c \<noteq> []"
    by (simp_all add: customer_entry_ok_def)
  from Cons.prems(2) x have "k \<notin> fst ` set cs" by auto
  then have "map_of cs k = None" by (simp add: map_of_eq_None_iff)
  then have u: "AList.update (c_id c) c cs = cs @ [(k, c)]"
    using k by (simp add: update_fresh)
  from Cons.prems(2) x have "distinct (map fst ((cs @ [(k, c)]) @ xs))" by simp
  from Cons.IH [OF rest this] show ?case
    by (simp add: x Customer_round_trip [OF d] bind_result_def u)
qed

lemma load_accounts_round_trip:
  assumes "list_all account_entry_ok xs" and "distinct (map fst (acs @ xs))"
  shows "load_accounts now (map Account_to_dict (map snd xs)) acs = Inr (acs @ xs)"
  using assms
proof (induction xs arbitrary: acs)
  case Nil
  then show ?case by simp
next
  case (Cons x xs)
  obtain k a where x: "x = (k, a)" by (cases x)
  from Cons.prems(1) x have ok: "account_entry_ok (k, a)"
    and rest: "list_all account_entry_ok xs"
    by simp_all
  from ok have k: "k = a_id a" and d: "a_created_date a \<noteq> []"
    and ts: "list_all transaction_ok (a_transactions a)"
    by (simp_all add: account_entry_ok_def)
  from Cons.prems(2) x have "k \<notin> fst ` set acs" by auto
  then have "map_of acs k = None" by (simp add: map_of_eq_None_iff)
  then have u: "AList.update (a_id a) a acs = acs @ [(k, a)]"
    using k by (simp add: update_fresh)
  from Cons.prems(2) x have "distinct (map fst ((acs @ [(k, a)]) @ xs))" by simp
  from Cons.IH [OF rest this] show ?case
    by (simp add: x Account_round_trip [OF d ts] bind_result_def u)
qed

text \<open>
  C9. Serialization loses nothing: for every store, the document that \<open>save_data\<close>
  builds from it with \<^verbatim>\<open>to_dict\<close> is loaded back by \<^verbatim>\<open>from_dict\<close> into the same store:
  the same customers and the same accounts under the same keys in the same order, with
  every field and every account's whole transaction list.
\<close>

theorem save_load_round_trip:
  assumes "store_ok s"
  shows "BankManagementService_init now (save_data s) = Inr s"
proof -
  from assms have c: "load_customers now (map Customer_to_dict (map snd (customers s))) [] =
      Inr (customers s)"
    using load_customers_round_trip [of "customers s" "[]" now] by (simp add: store_ok_def)
  from assms have a: "load_accounts now (map Account_to_dict (map snd (accounts s))) [] =
      Inr (accounts s)"
    using load_accounts_round_trip [of "accounts s" "[]" now] by (simp add: store_ok_def)
  show ?thesis
    by (simp add: BankManagementService_init_def load_data_def save_data_def empty_bank_def
        get_or_def as_list_def bind_result_def c a del: map_map)
qed


theorem save_load_round_trip_witness:
  "store_ok bank_two \<and>
   BankManagementService_init ''2024-02-01T00:00:00'' (save_data bank_two) = Inr bank_two"
  using save_load_round_trip [OF store_ok_bank_two, of "''2024-02-01T00:00:00''"]
    store_ok_bank_two
  by (intro conjI)

end
